theory Spec2Isabelle
  imports Complex_Main "HOL-Library.Word" "HOL-Library.Multiset"
begin

section \<open>Shipment tracker: status model and transition table\<close>

text \<open>
  The shipment model is in \<open>shipment_tracker/internal/models/dispute.go\<close>, the service and
  the \<open>StateTransition\<close> struct in \<open>shipment_tracker/internal/services/shipment_service.go\<close>,
  the repositories in \<open>shipment_tracker/internal/repository\<close>.

  Identifiers are Go \<open>uuid.UUID\<close> values, that is 16 bytes. \<open>ShipmentStatus\<close> is a Go
  string type, so any string can occur as a status, not only the ten constants.
\<close>

type_synonym uuid = "128 word"

type_synonym ShipmentStatus = string

definition StatusCreated :: ShipmentStatus where "StatusCreated = ''created''"
definition StatusPriceConfirmed :: ShipmentStatus where "StatusPriceConfirmed = ''price_confirmed''"
definition StatusDriverAssigned :: ShipmentStatus where "StatusDriverAssigned = ''driver_assigned''"
definition StatusPickupStarted :: ShipmentStatus where "StatusPickupStarted = ''pickup_started''"
definition StatusInTransit :: ShipmentStatus where "StatusInTransit = ''in_transit''"
definition StatusDelivered :: ShipmentStatus where "StatusDelivered = ''delivered''"
definition StatusCompleted :: ShipmentStatus where "StatusCompleted = ''completed''"
definition StatusCancelled :: ShipmentStatus where "StatusCancelled = ''cancelled''"
definition StatusDisputed :: ShipmentStatus where "StatusDisputed = ''disputed''"
definition StatusResolved :: ShipmentStatus where "StatusResolved = ''resolved''"

text \<open>\<open>ValidTransitions\<close>: a Go map from a status to a slice of statuses.\<close>

definition ValidTransitions :: "ShipmentStatus \<rightharpoonup> ShipmentStatus list" where
  "ValidTransitions = map_of
     [(StatusCreated, [StatusPriceConfirmed, StatusCancelled]),
      (StatusPriceConfirmed, [StatusDriverAssigned, StatusCancelled]),
      (StatusDriverAssigned, [StatusPickupStarted, StatusDisputed, StatusCancelled]),
      (StatusPickupStarted, [StatusInTransit, StatusDisputed]),
      (StatusInTransit, [StatusDelivered, StatusDisputed]),
      (StatusDelivered, [StatusCompleted, StatusDisputed]),
      (StatusDisputed, [StatusResolved]),
      (StatusResolved, [StatusCompleted])]"

text \<open>
  The \<open>Shipment\<close> struct. The fields that no modelled operation reads or writes after
  creation (weights, price, contract and address data, notes, timestamps) are left out.
\<close>

record Shipment =
  ID :: uuid
  UserID :: uuid
  DriverID :: "uuid option"
  CollectionID :: uuid
  WasteType :: string
  Status :: ShipmentStatus

text \<open>The range loop of \<open>CanTransitionTo\<close>: return true at the first equal element.\<close>

fun range_contains :: "ShipmentStatus list \<Rightarrow> ShipmentStatus \<Rightarrow> bool" where
  "range_contains [] newStatus = False"
| "range_contains (validStatus # rest) newStatus =
     (if validStatus = newStatus then True else range_contains rest newStatus)"

definition CanTransitionTo :: "'a Shipment_scheme \<Rightarrow> ShipmentStatus \<Rightarrow> bool" where
  "CanTransitionTo s newStatus =
     (case ValidTransitions (Status s) of
        None \<Rightarrow> False
      | Some validNextStates \<Rightarrow> range_contains validNextStates newStatus)"

text \<open>
  The adjacency table as the specification writes it, kept apart from \<open>ValidTransitions\<close>
  so that the two can be compared.
\<close>

definition spec_adjacency :: "ShipmentStatus \<Rightarrow> ShipmentStatus set" where
  "spec_adjacency s =
     (if s = ''created'' then {''price_confirmed'', ''cancelled''}
      else if s = ''price_confirmed'' then {''driver_assigned'', ''cancelled''}
      else if s = ''driver_assigned'' then {''pickup_started'', ''disputed'', ''cancelled''}
      else if s = ''pickup_started'' then {''in_transit'', ''disputed''}
      else if s = ''in_transit'' then {''delivered'', ''disputed''}
      else if s = ''delivered'' then {''completed'', ''disputed''}
      else if s = ''disputed'' then {''resolved''}
      else if s = ''resolved'' then {''completed''}
      else {})"

section \<open>Shipment tracker: persistence and the lifecycle service\<close>

text \<open>
  \<open>StateTransition\<close>. \<open>Metadata\<close> is a \<open>json.RawMessage\<close>: absent (nil) or the
  marshalled bytes. The \<open>created_at\<close> column is not carried: the rows are
  kept in the order of their insertion, which is the order of their creation times.
\<close>

record StateTransition =
  ID :: uuid
  ShipmentID :: uuid
  FromStatus :: "ShipmentStatus option"
  ToStatus :: ShipmentStatus
  TriggeredBy :: uuid
  TriggeredByRole :: string
  ProofHash :: "string option"
  Signature :: "string option"
  Metadata :: "string option"

record CreateShipmentRequest =
  UserID :: uuid
  CollectionID :: uuid
  WasteType :: string

text \<open>The \<open>data\<close> argument of \<open>publishEvent\<close>: the shipment, or one of the two field maps.\<close>

datatype event_data =
  ShipmentData Shipment
| AssignedData uuid uuid
| StatusData uuid ShipmentStatus uuid

text \<open>
  The database and the message bus: the \<open>shipments\<close> table keyed by its primary key, the
  \<open>state_transitions\<close> table in insertion order, and the events handed to NATS.
\<close>

record store =
  shipments :: "uuid \<rightharpoonup> Shipment"
  state_transitions :: "StateTransition list"
  published :: "(string \<times> event_data) list"

text \<open>
  Which calls to the outside fail during one service operation: the read of the shipment,
  the write to the \<open>shipments\<close> table, the insert into \<open>state_transitions\<close>, and the
  publication.
\<close>

record faults =
  get_err :: bool
  write_err :: bool
  transition_err :: bool
  publish_err :: bool

text \<open>
  The errors of the service. \<open>CannotTransition\<close> is the message
  \<open>cannot transition from %s to %s\<close> of \<open>AssignDriver\<close>, \<open>InvalidTransition\<close> the message
  \<open>invalid transition from %s to %s\<close> of \<open>updateStatusAndRecord\<close>; a \<open>RepoError\<close> is any
  error returned by the database driver.
\<close>

datatype svc_error =
  RepoError
| ShipmentNotFound
| CannotTransition ShipmentStatus ShipmentStatus
| InvalidTransition ShipmentStatus ShipmentStatus

text \<open>Both rejections are the \<open>InvalidTransition\<close> of the specification's error taxonomy.\<close>

fun is_InvalidTransition :: "svc_error \<Rightarrow> bool" where
  "is_InvalidTransition (CannotTransition a b) = True"
| "is_InvalidTransition (InvalidTransition a b) = True"
| "is_InvalidTransition e = False"

definition TopicShipmentCreated :: string where "TopicShipmentCreated = ''shipment.created''"
definition TopicPriceConfirmed :: string where "TopicPriceConfirmed = ''shipment.price.confirmed''"
definition TopicDriverAssigned :: string where "TopicDriverAssigned = ''shipment.driver.assigned''"
definition TopicPickupStarted :: string where "TopicPickupStarted = ''shipment.pickup.started''"
definition TopicInTransit :: string where "TopicInTransit = ''shipment.in.transit''"
definition TopicDelivered :: string where "TopicDelivered = ''shipment.delivered''"
definition TopicCompleted :: string where "TopicCompleted = ''shipment.completed''"
definition TopicCancelled :: string where "TopicCancelled = ''shipment.cancelled''"
definition TopicDisputed :: string where "TopicDisputed = ''shipment.disputed''"
definition TopicResolved :: string where "TopicResolved = ''shipment.resolved''"

subsection \<open>Repositories\<close>

text \<open>\<open>ShipmentRepository.Create\<close>: an INSERT, refused when the primary key exists.\<close>

definition ShipmentRepository_Create ::
  "faults \<Rightarrow> Shipment \<Rightarrow> store \<Rightarrow> svc_error option \<times> store" where
  "ShipmentRepository_Create f s db =
     (if write_err f \<or> Shipment.ID s \<in> dom (shipments db) then (Some RepoError, db)
      else (None, db\<lparr>shipments := (shipments db)(Shipment.ID s \<mapsto> s)\<rparr>))"

text \<open>\<open>ShipmentRepository.GetByID\<close>: no row is \<open>(nil, nil)\<close>, here \<open>Inr None\<close>.\<close>

definition ShipmentRepository_GetByID ::
  "faults \<Rightarrow> uuid \<Rightarrow> store \<Rightarrow> svc_error + Shipment option" where
  "ShipmentRepository_GetByID f sid db =
     (if get_err f then Inl RepoError else Inr (shipments db sid))"

text \<open>\<open>UPDATE shipments SET status = $1 WHERE id = $2\<close>: no matching row is no error.\<close>

definition ShipmentRepository_UpdateStatus ::
  "faults \<Rightarrow> uuid \<Rightarrow> ShipmentStatus \<Rightarrow> store \<Rightarrow> svc_error option \<times> store" where
  "ShipmentRepository_UpdateStatus f sid status db =
     (if write_err f then (Some RepoError, db)
      else (None,
        (case shipments db sid of
           None \<Rightarrow> db
         | Some s \<Rightarrow> db\<lparr>shipments := (shipments db)(sid \<mapsto> s\<lparr>Status := status\<rparr>)\<rparr>)))"

text \<open>\<open>UPDATE shipments SET driver_id = $1, status = $2 WHERE id = $3\<close>.\<close>

definition ShipmentRepository_AssignDriver ::
  "faults \<Rightarrow> uuid \<Rightarrow> uuid \<Rightarrow> store \<Rightarrow> svc_error option \<times> store" where
  "ShipmentRepository_AssignDriver f sid driverID db =
     (if write_err f then (Some RepoError, db)
      else (None,
        (case shipments db sid of
           None \<Rightarrow> db
         | Some s \<Rightarrow> db\<lparr>shipments :=
             (shipments db)(sid \<mapsto> s\<lparr>DriverID := Some driverID, Status := StatusDriverAssigned\<rparr>)\<rparr>)))"

text \<open>
  \<open>TransitionRepository.Create\<close>: a nil \<open>Metadata\<close> becomes \<open>{}\<close>, then an INSERT; the
  table's foreign key needs the shipment row, its primary key a fresh id.
\<close>

definition TransitionRepository_Create ::
  "faults \<Rightarrow> StateTransition \<Rightarrow> store \<Rightarrow> svc_error option \<times> store" where
  "TransitionRepository_Create f t db =
     (let t' = (if Metadata t = None then t\<lparr>Metadata := Some ''{}''\<rparr> else t) in
      if transition_err f \<or> shipments db (ShipmentID t') = None
         \<or> StateTransition.ID t' \<in> set (map StateTransition.ID (state_transitions db))
      then (Some RepoError, db)
      else (None, db\<lparr>state_transitions := state_transitions db @ [t']\<rparr>))"

subsection \<open>ShipmentService\<close>

text \<open>
  \<open>publishEvent\<close>: a failed publication is printed and otherwise ignored. The event id and
  the timestamp of the payload are not carried.
\<close>

definition publishEvent :: "faults \<Rightarrow> string \<Rightarrow> event_data \<Rightarrow> store \<Rightarrow> store" where
  "publishEvent f topic data db =
     (if publish_err f then db else db\<lparr>published := published db @ [(topic, data)]\<rparr>)"

definition getTopicForStatus :: "ShipmentStatus \<Rightarrow> string" where
  "getTopicForStatus status =
     (if status = StatusPriceConfirmed then TopicPriceConfirmed
      else if status = StatusPickupStarted then TopicPickupStarted
      else if status = StatusInTransit then TopicInTransit
      else if status = StatusDelivered then TopicDelivered
      else if status = StatusCompleted then TopicCompleted
      else if status = StatusCancelled then TopicCancelled
      else if status = StatusDisputed then TopicDisputed
      else if status = StatusResolved then TopicResolved
      else ''shipment.status.changed'')"

text \<open>
  \<open>CreateShipment\<close>. The two \<open>uuid.New()\<close> values are the arguments \<open>sid\<close> (the
  source's \<open>id\<close>) and \<open>tid\<close>. The error of the transition insert is dropped, as in the
  source.
\<close>

definition CreateShipment ::
  "faults \<Rightarrow> uuid \<Rightarrow> uuid \<Rightarrow> CreateShipmentRequest \<Rightarrow> store \<Rightarrow> (svc_error + Shipment) \<times> store" where
  "CreateShipment f sid tid req db =
     (let shipment = \<lparr>Shipment.ID = sid, UserID = CreateShipmentRequest.UserID req, DriverID = None,
                       CollectionID = CreateShipmentRequest.CollectionID req,
                       WasteType = CreateShipmentRequest.WasteType req, Status = StatusCreated\<rparr>
      in case ShipmentRepository_Create f shipment db of
           (Some e, db1) \<Rightarrow> (Inl e, db1)
         | (None, db1) \<Rightarrow>
             (let transition = \<lparr>StateTransition.ID = tid, ShipmentID = sid, FromStatus = None,
                                 ToStatus = StatusCreated,
                                 TriggeredBy = CreateShipmentRequest.UserID req,
                                 TriggeredByRole = ''user'', ProofHash = None, Signature = None,
                                 Metadata = None\<rparr>;
                  db2 = snd (TransitionRepository_Create f transition db1);
                  db3 = publishEvent f TopicShipmentCreated (ShipmentData shipment) db2
              in (Inr shipment, db3)))"

text \<open>\<open>AssignDriver\<close>: the result of the transition insert is not looked at.\<close>

definition AssignDriver ::
  "faults \<Rightarrow> uuid \<Rightarrow> uuid \<Rightarrow> uuid \<Rightarrow> store \<Rightarrow> svc_error option \<times> store" where
  "AssignDriver f tid shipmentID driverID db =
     (case ShipmentRepository_GetByID f shipmentID db of
        Inl e \<Rightarrow> (Some e, db)
      | Inr None \<Rightarrow> (Some ShipmentNotFound, db)
      | Inr (Some shipment) \<Rightarrow>
          if \<not> CanTransitionTo shipment StatusDriverAssigned
          then (Some (CannotTransition (Status shipment) StatusDriverAssigned), db)
          else (case ShipmentRepository_AssignDriver f shipmentID driverID db of
                  (Some e, db1) \<Rightarrow> (Some e, db1)
                | (None, db1) \<Rightarrow>
                    (let fromStatus = Status shipment;
                         transition = \<lparr>StateTransition.ID = tid, ShipmentID = shipmentID,
                                        FromStatus = Some fromStatus,
                                        ToStatus = StatusDriverAssigned, TriggeredBy = driverID,
                                        TriggeredByRole = ''driver'', ProofHash = None,
                                        Signature = None, Metadata = None\<rparr>;
                         db2 = snd (TransitionRepository_Create f transition db1);
                         db3 = publishEvent f TopicDriverAssigned
                                 (AssignedData shipmentID driverID) db2
                     in (None, db3))))"

text \<open>
  \<open>updateStatusAndRecord\<close>. \<open>shipment\<close> is the caller's copy of the row; \<open>mdBytes\<close> is the
  result of \<open>json.Marshal(metadata)\<close>, whose error the source drops.
\<close>

definition updateStatusAndRecord ::
  "faults \<Rightarrow> uuid \<Rightarrow> Shipment \<Rightarrow> ShipmentStatus \<Rightarrow> uuid \<Rightarrow> string \<Rightarrow> string option \<Rightarrow>
   string option \<Rightarrow> string option \<Rightarrow> store \<Rightarrow> svc_error option \<times> store" where
  "updateStatusAndRecord f tid shipment newStatus triggeredBy role proofHash signature mdBytes db =
     (if \<not> CanTransitionTo shipment newStatus
      then (Some (InvalidTransition (Status shipment) newStatus), db)
      else (case ShipmentRepository_UpdateStatus f (Shipment.ID shipment) newStatus db of
              (Some e, db1) \<Rightarrow> (Some e, db1)
            | (None, db1) \<Rightarrow>
                (let fromStatus = Status shipment;
                     transition = \<lparr>StateTransition.ID = tid, ShipmentID = Shipment.ID shipment,
                                    FromStatus = Some fromStatus, ToStatus = newStatus,
                                    TriggeredBy = triggeredBy, TriggeredByRole = role,
                                    ProofHash = proofHash, Signature = signature,
                                    Metadata = mdBytes\<rparr>
                 in case TransitionRepository_Create f transition db1 of
                      (Some e, db2) \<Rightarrow> (Some e, db2)
                    | (None, db2) \<Rightarrow>
                        (let topic = getTopicForStatus newStatus;
                             db3 = publishEvent f topic
                                     (StatusData (Shipment.ID shipment) newStatus triggeredBy) db2
                         in (None, db3)))))"

text \<open>
  What the invariant of the specification compares: the stored status of a shipment and
  the \<open>toStatus\<close> of the transition appended last for it.
\<close>

definition stored_status :: "store \<Rightarrow> uuid \<Rightarrow> ShipmentStatus option" where
  "stored_status db sid = map_option Status (shipments db sid)"

definition latest_toStatus :: "store \<Rightarrow> uuid \<Rightarrow> ShipmentStatus option" where
  "latest_toStatus db sid =
     (let rows = filter (\<lambda>t. ShipmentID t = sid) (state_transitions db)
      in if rows = [] then None else Some (ToStatus (last rows)))"

definition status_matches_log :: "store \<Rightarrow> uuid \<Rightarrow> bool" where
  "status_matches_log db sid =
     (stored_status db sid \<noteq> None \<and> stored_status db sid = latest_toStatus db sid)"

section \<open>Backend: bins, drivers and the directory\<close>

text \<open>
  \<open>Bin\<close> (\<open>go_backend/internal/models/bin.go\<close>) and \<open>Driver\<close> (\<open>models/driver.go\<close>), with
  the fields that the modelled operations read or write. A Go \<open>float64\<close> coordinate is
  a real number here: the columns are \<open>DECIMAL\<close> values of at most eight decimals. The
  distances computed from them are treated in the section on the route optimizer.
  Pointer fields are options, \<open>nil\<close> being \<open>None\<close>. Times are clock ticks.
\<close>

record Bin =
  ID :: uuid
  DeviceID :: string
  LocationName :: "string option"
  Latitude :: real
  Longitude :: real
  FillLevel :: int
  LastUpdatedAt :: nat
  IsActive :: bool

record Driver =
  ID :: uuid
  FullName :: string
  Latitude :: "real option"
  Longitude :: "real option"
  IsAvailable :: bool
  FCMToken :: "string option"

text \<open>\<open>BinStatusUpdate\<close>: the decoded MQTT payload.\<close>

record BinStatusUpdate =
  BinID :: string
  FillLevel :: int

text \<open>
  The errors of a directory call: the database reports one, or \<open>sqlx\<close> finds a result
  column for which the destination struct has no field
  (\<open>missing destination name ... in *models.Driver\<close>).
\<close>

datatype repo_error = DbError | MissingDestination string

text \<open>Which directory calls fail while one message is handled.\<close>

record bin_faults =
  update_err :: bool
  lookup_err :: bool

text \<open>
  \<open>BinRepository.UpdateFillLevel\<close>:
  \<open>UPDATE bins SET fill_level = $1, last_updated_at = CURRENT_TIMESTAMP WHERE device_id = $2\<close>.
  No matching row is no error.
\<close>

definition BinRepository_UpdateFillLevel ::
  "bin_faults \<Rightarrow> nat \<Rightarrow> string \<Rightarrow> int \<Rightarrow> Bin list \<Rightarrow> repo_error option \<times> Bin list" where
  "BinRepository_UpdateFillLevel f now deviceID fillLevel rows =
     (if update_err f then (Some DbError, rows)
      else (None,
        map (\<lambda>b. if Bin.DeviceID b = deviceID
                 then b\<lparr>Bin.FillLevel := fillLevel, LastUpdatedAt := now\<rparr> else b) rows))"

text \<open>\<open>BinRepository.GetByDeviceID\<close> and \<open>GetByID\<close>: no row is \<open>(nil, nil)\<close>.\<close>

definition BinRepository_GetByDeviceID ::
  "bin_faults \<Rightarrow> string \<Rightarrow> Bin list \<Rightarrow> repo_error + Bin option" where
  "BinRepository_GetByDeviceID f deviceID rows =
     (if lookup_err f then Inl DbError else Inr (find (\<lambda>b. Bin.DeviceID b = deviceID) rows))"

definition BinRepository_GetByID ::
  "(uuid \<Rightarrow> bool) \<Rightarrow> Bin list \<Rightarrow> uuid \<Rightarrow> repo_error + Bin option" where
  "BinRepository_GetByID failing rows bid =
     (if failing bid then Inl DbError else Inr (find (\<lambda>b. Bin.ID b = bid) rows))"

section \<open>Backend: telemetry intake (MQTT client)\<close>

text \<open>The MQTT client with \<open>processBinStatus\<close> is the source file \<open>unnamed/part_003\<close>.\<close>

record Client =
  fillLevelThreshold :: int

text \<open>\<open>NewClient\<close> fixes the threshold; the broker options are not modelled.\<close>

definition NewClient :: Client where
  "NewClient = \<lparr>fillLevelThreshold = 90\<rparr>"

text \<open>The lines that \<open>processBinStatus\<close> writes with \<open>log.Printf\<close>.\<close>

datatype intake_log =
  LogParseFailed
| LogProcessing string int
| LogInvalidFillLevel int string
| LogUpdateFailed
| LogThresholdExceeded string int int
| LogBinDetailsFailed

text \<open>
  What \<open>processBinStatus\<close> acts on: the rows of the \<open>bins\<close> table, the log, and the bins
  for which it has started \<open>NotifyNearestDriver\<close> (each in a goroutine of its own).
\<close>

record intake_world =
  bin_rows :: "Bin list"
  logged :: "intake_log list"
  notify_started :: "Bin list"

definition log_line :: "intake_log \<Rightarrow> intake_world \<Rightarrow> intake_world" where
  "log_line l w = w\<lparr>logged := logged w @ [l]\<rparr>"

text \<open>
  \<open>processBinStatus\<close>. The argument \<open>payload\<close> is the result of \<open>json.Unmarshal\<close> on the
  message: \<open>None\<close> when decoding failed. The function returns nothing; its result here is
  the world it leaves.
\<close>

definition processBinStatus ::
  "Client \<Rightarrow> bin_faults \<Rightarrow> nat \<Rightarrow> BinStatusUpdate option \<Rightarrow> intake_world \<Rightarrow> intake_world" where
  "processBinStatus c f now payload w =
     (case payload of
        None \<Rightarrow> log_line LogParseFailed w
      | Some status \<Rightarrow>
          (let w1 = log_line (LogProcessing (BinID status) (BinStatusUpdate.FillLevel status)) w in
           if BinStatusUpdate.FillLevel status < 0 \<or> BinStatusUpdate.FillLevel status > 100
           then log_line (LogInvalidFillLevel (BinStatusUpdate.FillLevel status) (BinID status)) w1
           else
             (case BinRepository_UpdateFillLevel f now (BinID status)
                     (BinStatusUpdate.FillLevel status) (bin_rows w1) of
                (Some e, rows) \<Rightarrow> log_line LogUpdateFailed w1
              | (None, rows) \<Rightarrow>
                  (let w2 = w1\<lparr>bin_rows := rows\<rparr> in
                   if BinStatusUpdate.FillLevel status \<ge> fillLevelThreshold c
                   then
                     (let w3 = log_line (LogThresholdExceeded (BinID status)
                                  (BinStatusUpdate.FillLevel status) (fillLevelThreshold c)) w2
                      in case BinRepository_GetByDeviceID f (BinID status) (bin_rows w3) of
                           Inl e \<Rightarrow> log_line LogBinDetailsFailed w3
                         | Inr None \<Rightarrow> log_line LogBinDetailsFailed w3
                         | Inr (Some bin) \<Rightarrow> w3\<lparr>notify_started := notify_started w3 @ [bin]\<rparr>)
                   else w2))))"

text \<open>
  Reports handled one after the other, each with the clock value at which it is handled:
  the interleaving in which no two handlers of \<open>binStatusHandler\<close> overlap.
\<close>

fun process_reports ::
  "Client \<Rightarrow> bin_faults \<Rightarrow> (nat \<times> BinStatusUpdate) list \<Rightarrow> intake_world \<Rightarrow> intake_world" where
  "process_reports c f [] w = w"
| "process_reports c f ((now, status) # rest) w =
     process_reports c f rest (processBinStatus c f now (Some status) w)"

section \<open>Backend: dispatch (NotificationService)\<close>

text \<open>
  \<open>NotificationService\<close> is found in \<open>go_backend/internal/services/analytics_service.go\<close>,
  the driver repository in \<open>go_backend/pkg/utils/qrcode.go\<close>.
\<close>










text \<open>
  The message of the notification is
  \<open>Sprintf("Bin %s at %s is %d%% full and requires collection.", ...)\<close>; the model keeps
  the three arguments.
\<close>

datatype bin_full_message = BinFullMessage string string int

record Notification =
  ID :: uuid
  DriverID :: "uuid option"
  BinID :: "uuid option"
  Type :: string
  Title :: string
  Message :: bin_full_message





section \<open>Backend: route optimizer (RouteService)\<close>

text \<open>
  The service is \<open>go_backend/internal/services/route_service.go\<close>; \<open>Waypoint\<close> and
  \<open>DriverRoute\<close> are in \<open>go_backend/internal/models/route.go\<close>. \<open>DriverRoute\<close> is modelled
  without its timestamps and without the JSON copy of the waypoints; \<open>OptimizeRoute\<close> leaves
  its \<open>DriverID\<close> at the zero value.
\<close>

record Waypoint =
  BinID :: uuid
  DeviceID :: string
  Latitude :: real
  Longitude :: real
  FillLevel :: int
  Order :: int
  IsCompleted :: bool

record DriverRoute =
  ID :: uuid
  DriverID :: uuid
  WaypointsList :: "Waypoint list"
  TotalDistanceKm :: "real option"
  EstimatedDurationMinutes :: "int option"
  Status :: string

definition RouteStatusPending :: string where "RouteStatusPending = ''pending''"

subsection \<open>Distances\<close>

text \<open>
  \<open>math.Atan2\<close>, \<open>math.MaxFloat64\<close> and the formula of \<open>haversineDistance\<close> over the reals:
  the value of the formula in exact arithmetic.
\<close>

definition atan2 :: "real \<Rightarrow> real \<Rightarrow> real" where
  "atan2 y x =
     (if x > 0 then arctan (y / x)
      else if x < 0 then (if y \<ge> 0 then arctan (y / x) + pi else arctan (y / x) - pi)
      else if y > 0 then pi / 2
      else if y < 0 then - (pi / 2)
      else 0)"

definition MaxFloat64 :: real where
  "MaxFloat64 = (2 ^ 53 - 1) * 2 ^ 971"

definition haversineDistance :: "real \<Rightarrow> real \<Rightarrow> real \<Rightarrow> real \<Rightarrow> real" where
  "haversineDistance lat1 lng1 lat2 lng2 =
     (let earthRadiusKm = 6371;
          lat1Rad = lat1 * pi / 180;
          lat2Rad = lat2 * pi / 180;
          deltaLat = (lat2 - lat1) * pi / 180;
          deltaLng = (lng2 - lng1) * pi / 180;
          a = sin (deltaLat / 2) * sin (deltaLat / 2)
              + cos lat1Rad * cos lat2Rad * sin (deltaLng / 2) * sin (deltaLng / 2);
          c = 2 * atan2 (sqrt a) (sqrt (1 - a))
      in earthRadiusKm * c)"

text \<open>
  What Go computes is a \<open>float64\<close>. Every step of \<open>haversineDistance\<close> rounds, and the
  formula does not clamp \<open>a\<close> to the interval from 0 to 1: for some pairs of antipodal
  points the rounded \<open>a\<close> exceeds 1, \<open>math.Sqrt(1-a)\<close> is NaN, and so are \<open>math.Atan2\<close> of it
  and the distance returned. A distance is therefore a number or NaN (it is never
  infinite: \<open>math.Atan2\<close> is bounded). The operators \<open><\<close> and \<open><=\<close> of Go are false as soon as
  one operand is NaN.

  The rounding is not computed in this theory. Where the order of two distances decides
  what the code does (the two strategies), the function \<open>haversineDistance\<close> as Go
  evaluates it is the argument \<open>hav\<close> of the definitions, and nothing is assumed of it
  except where a theorem says so. The route metrics use the exact value of the formula.
\<close>

datatype float64 = Val real | NaN

fun f64_less :: "float64 \<Rightarrow> float64 \<Rightarrow> bool" where
  "f64_less (Val x) (Val y) = (x < y)"
| "f64_less (Val x) NaN = False"
| "f64_less NaN y = False"

fun f64_le :: "float64 \<Rightarrow> float64 \<Rightarrow> bool" where
  "f64_le (Val x) (Val y) = (x \<le> y)"
| "f64_le (Val x) NaN = False"
| "f64_le NaN y = False"

type_synonym haversine = "real \<Rightarrow> real \<Rightarrow> real \<Rightarrow> real \<Rightarrow> float64"

text \<open>
  The last two lines of \<open>haversineDistance\<close>, from the \<open>float64\<close> value that the sum \<open>a\<close>
  has been rounded to: \<open>math.Sqrt\<close> of a negative number is NaN, and \<open>math.Atan2\<close> and
  the two products pass a NaN on.
\<close>

definition haversine_of_a :: "real \<Rightarrow> float64" where
  "haversine_of_a a =
     (if a < 0 \<or> 1 - a < 0 then NaN
      else Val (6371 * (2 * atan2 (sqrt a) (sqrt (1 - a)))))"

text \<open>A distance that can replace \<open>minDist\<close>: a number below \<open>math.MaxFloat64\<close>.\<close>

definition number_below_max :: "float64 \<Rightarrow> bool" where
  "number_below_max d = (case d of Val r \<Rightarrow> r < MaxFloat64 | NaN \<Rightarrow> False)"

text \<open>The conversion \<open>int(x)\<close> of a float: the fraction is dropped, towards zero.\<close>

definition go_int :: "real \<Rightarrow> int" where
  "go_int x = (if x \<ge> 0 then \<lfloor>x\<rfloor> else \<lceil>x\<rceil>)"

text \<open>Go's integer division truncates towards zero.\<close>

definition go_quot :: "int \<Rightarrow> int \<Rightarrow> int" where
  "go_quot k l = sgn k * sgn l * (\<bar>k\<bar> div \<bar>l\<bar>)"

subsection \<open>The two strategies\<close>

text \<open>The waypoint literal that both strategies build for a bin and its position.\<close>

definition waypoint_for :: "Bin \<Rightarrow> int \<Rightarrow> Waypoint" where
  "waypoint_for b n =
     \<lparr>Waypoint.BinID = Bin.ID b, DeviceID = Bin.DeviceID b, Latitude = Bin.Latitude b,
      Longitude = Bin.Longitude b, FillLevel = Bin.FillLevel b, Order = n,
      IsCompleted = False\<rparr>"

text \<open>The local struct \<open>binWithDistance\<close> (fields \<open>bin\<close> and \<open>distance\<close>).\<close>

record binWithDistance =
  bwd_bin :: Bin
  bwd_distance :: float64

text \<open>
  The variables of the nearest-neighbour loop: \<open>waypoints\<close>, \<open>currentLat\<close>,
  \<open>currentLng\<close> and the map \<open>visited\<close>. Reading a Go \<open>map[uuid.UUID]bool\<close> at an absent
  key gives \<open>false\<close>.
\<close>

record nn_state =
  nn_waypoints :: "Waypoint list"
  nn_currentLat :: real
  nn_currentLng :: real
  nn_visited :: "uuid \<rightharpoonup> bool"

definition is_visited :: "(uuid \<rightharpoonup> bool) \<Rightarrow> uuid \<Rightarrow> bool" where
  "is_visited v k = (case v k of None \<Rightarrow> False | Some b \<Rightarrow> b)"

text \<open>
  The inner \<open>for ... range binsWithDist\<close>: the variables \<open>nearest\<close> and \<open>minDist\<close> are
  passed along and returned.
\<close>

fun scan_nearest ::
  "haversine \<Rightarrow> (uuid \<rightharpoonup> bool) \<Rightarrow> real \<Rightarrow> real \<Rightarrow> binWithDistance list \<Rightarrow> Bin option
   \<Rightarrow> float64 \<Rightarrow> Bin option \<times> float64" where
  "scan_nearest hav v lat lng [] nearest minDist = (nearest, minDist)"
| "scan_nearest hav v lat lng (bwd # rest) nearest minDist =
     (if is_visited v (Bin.ID (bwd_bin bwd))
      then scan_nearest hav v lat lng rest nearest minDist
      else
        (let dist = hav lat lng (Bin.Latitude (bwd_bin bwd)) (Bin.Longitude (bwd_bin bwd))
         in if f64_less dist minDist
            then scan_nearest hav v lat lng rest (Some (bwd_bin bwd)) dist
            else scan_nearest hav v lat lng rest nearest minDist))"

text \<open>
  One round of the outer loop: the inner loop starts from \<open>nearest = nil\<close> and
  \<open>minDist = math.MaxFloat64\<close>; when it has found a bin, the bin is marked, appended as
  the next waypoint, and becomes the current position.
\<close>

definition find_nearest :: "haversine \<Rightarrow> binWithDistance list \<Rightarrow> nn_state \<Rightarrow> Bin option" where
  "find_nearest hav binsWithDist st =
     fst (scan_nearest hav (nn_visited st) (nn_currentLat st) (nn_currentLng st) binsWithDist
            None (Val MaxFloat64))"

definition visit :: "nn_state \<Rightarrow> Bin \<Rightarrow> nn_state" where
  "visit st nearest =
     \<lparr>nn_waypoints = nn_waypoints st
          @ [waypoint_for nearest (int (length (nn_waypoints st)) + 1)],
      nn_currentLat = Bin.Latitude nearest,
      nn_currentLng = Bin.Longitude nearest,
      nn_visited = (nn_visited st)(Bin.ID nearest \<mapsto> True)\<rparr>"

text \<open>
  The outer \<open>for len(waypoints) < len(bins)\<close>. Nothing bounds the number of its rounds, so
  the loop is a partial function: \<open>None\<close> stands for a loop that never ends.
\<close>

partial_function (option) nearest_neighbor_loop ::
  "haversine \<Rightarrow> binWithDistance list \<Rightarrow> nat \<Rightarrow> nn_state \<Rightarrow> Waypoint list option" where
  "nearest_neighbor_loop hav binsWithDist n st =
     (if length (nn_waypoints st) < n then
        (case find_nearest hav binsWithDist st of
           None \<Rightarrow> nearest_neighbor_loop hav binsWithDist n st
         | Some nearest \<Rightarrow> nearest_neighbor_loop hav binsWithDist n (visit st nearest))
      else Some (nn_waypoints st))"

definition optimizeByDistance ::
  "haversine \<Rightarrow> Bin list \<Rightarrow> real \<Rightarrow> real \<Rightarrow> Waypoint list option" where
  "optimizeByDistance hav bins driverLat driverLng =
     (let binsWithDist =
            map (\<lambda>b. \<lparr>bwd_bin = b,
                       bwd_distance = hav driverLat driverLng
                                        (Bin.Latitude b) (Bin.Longitude b)\<rparr>) bins
      in nearest_neighbor_loop hav binsWithDist (length bins)
           \<lparr>nn_waypoints = [], nn_currentLat = driverLat, nn_currentLng = driverLng,
            nn_visited = Map.empty\<rparr>)"

text \<open>The \<open>less\<close> function that \<open>optimizeByFillLevel\<close> hands to \<open>sort.Slice\<close>.\<close>

definition fill_level_less :: "haversine \<Rightarrow> real \<Rightarrow> real \<Rightarrow> Bin \<Rightarrow> Bin \<Rightarrow> bool" where
  "fill_level_less hav driverLat driverLng bi bj =
     (if Bin.FillLevel bi \<noteq> Bin.FillLevel bj then Bin.FillLevel bi > Bin.FillLevel bj
      else
        (let distI = hav driverLat driverLng (Bin.Latitude bi) (Bin.Longitude bi);
             distJ = hav driverLat driverLng (Bin.Latitude bj) (Bin.Longitude bj)
         in f64_less distI distJ))"

text \<open>
  \<open>optimizeByFillLevel\<close>. \<open>sort.Slice\<close> belongs to the Go library, so the sorting function
  is the argument \<open>sort_Slice\<close>; what is assumed of it is stated where it is needed. The
  library promises an ordered slice only for a \<open>less\<close> that is a strict weak ordering, which
  the \<open>less\<close> above is on bins whose distances are numbers, and is not in general once a
  distance is NaN.
\<close>

definition optimizeByFillLevel ::
  "((Bin \<Rightarrow> Bin \<Rightarrow> bool) \<Rightarrow> Bin list \<Rightarrow> Bin list) \<Rightarrow> haversine \<Rightarrow> Bin list \<Rightarrow> real \<Rightarrow> real
   \<Rightarrow> Waypoint list" where
  "optimizeByFillLevel sort_Slice hav bins driverLat driverLng =
     (let sorted_bins = sort_Slice (fill_level_less hav driverLat driverLng) bins
      in map (\<lambda>(i, b). waypoint_for b (int i + 1)) (enumerate 0 sorted_bins))"

text \<open>
  An insertion sort, as one function that can stand for \<open>sort.Slice\<close>: an element goes in
  front of the first element of the sorted rest that is not less than it.
\<close>

fun insert_by :: "('a \<Rightarrow> 'a \<Rightarrow> bool) \<Rightarrow> 'a \<Rightarrow> 'a list \<Rightarrow> 'a list" where
  "insert_by lt x [] = [x]"
| "insert_by lt x (y # ys) = (if lt y x then y # insert_by lt x ys else x # y # ys)"

fun insertion_sort :: "('a \<Rightarrow> 'a \<Rightarrow> bool) \<Rightarrow> 'a list \<Rightarrow> 'a list" where
  "insertion_sort lt [] = []"
| "insertion_sort lt (x # xs) = insert_by lt x (insertion_sort lt xs)"

subsection \<open>Metrics and the external routing service\<close>

text \<open>The loop of \<open>calculateRouteMetrics\<close> with its three variables.\<close>

fun sum_legs :: "real \<Rightarrow> real \<Rightarrow> Waypoint list \<Rightarrow> real \<Rightarrow> real" where
  "sum_legs currentLat currentLng [] totalDistance = totalDistance"
| "sum_legs currentLat currentLng (wp # rest) totalDistance =
     sum_legs (Waypoint.Latitude wp) (Waypoint.Longitude wp) rest
       (totalDistance
        + haversineDistance currentLat currentLng (Waypoint.Latitude wp) (Waypoint.Longitude wp))"

definition calculateRouteMetrics :: "real \<Rightarrow> real \<Rightarrow> Waypoint list \<Rightarrow> real \<times> int" where
  "calculateRouteMetrics startLat startLng wps =
     (if length wps = 0 then (0, 0)
      else
        (let totalDistance = sum_legs startLat startLng wps 0;
             durationMinutes = go_int ((totalDistance / 30) * 60) + int (length wps) * 2
         in (totalDistance, durationMinutes)))"

text \<open>
  What the Directions API call comes to: \<open>http.Get\<close> fails, reading the body fails, the
  body is not the expected JSON, or it decodes to a status string and a list of routes,
  each a list of legs with a distance in metres and a duration in seconds.
\<close>

datatype maps_reply =
  GetFailed
| ReadFailed
| ParseFailed
| Decoded string "(int \<times> int) list list"

record googleMapsRouteResult =
  gm_distance :: real
  gm_duration :: int

text \<open>
  The two sums over the legs are sums of the type \<open>int\<close>, 64 bits wide on the platforms
  the service is built for: \<open>+=\<close> wraps around.
\<close>

definition wrap_int64 :: "int \<Rightarrow> int" where
  "wrap_int64 k = signed_take_bit 63 k"

fun sum_wrapping :: "int list \<Rightarrow> int \<Rightarrow> int" where
  "sum_wrapping [] acc = acc"
| "sum_wrapping (v # vs) acc = sum_wrapping vs (wrap_int64 (acc + v))"

text \<open>
  \<open>getGoogleMapsRoute\<close>. The request URL is built from the start and the waypoints; the
  model takes the reply to that request as an argument.
\<close>

definition getGoogleMapsRoute ::
  "string \<Rightarrow> maps_reply \<Rightarrow> Waypoint list \<Rightarrow> string + googleMapsRouteResult" where
  "getGoogleMapsRoute googleKey reply wps =
     (if googleKey = '''' then Inl ''google Maps API key not configured''
      else if length wps = 0 then Inl ''no waypoints provided''
      else
        (case reply of
           GetFailed \<Rightarrow> Inl ''failed to call Google Maps API''
         | ReadFailed \<Rightarrow> Inl ''failed to read response''
         | ParseFailed \<Rightarrow> Inl ''failed to parse response''
         | Decoded status routes \<Rightarrow>
             if status \<noteq> ''OK'' \<or> length routes = 0 then Inl ''no routes found''
             else
               (let legs = hd routes;
                    totalDistance = sum_wrapping (map fst legs) 0;
                    totalDuration = sum_wrapping (map snd legs) 0
                in Inr \<lparr>gm_distance = real_of_int totalDistance / 1000,
                        gm_duration = go_quot totalDuration 60\<rparr>)))"

subsection \<open>OptimizeRoute\<close>

datatype route_error =
  GetBinFailed uuid
| NoValidBins

text \<open>The first loop of \<open>OptimizeRoute\<close>: an error ends the call, a missing bin is skipped.\<close>

fun resolve_bins ::
  "(uuid \<Rightarrow> repo_error + Bin option) \<Rightarrow> uuid list \<Rightarrow> Bin list \<Rightarrow> route_error + Bin list" where
  "resolve_bins getByID [] bins = Inr bins"
| "resolve_bins getByID (bid # rest) bins =
     (case getByID bid of
        Inl e \<Rightarrow> Inl (GetBinFailed bid)
      | Inr None \<Rightarrow> resolve_bins getByID rest bins
      | Inr (Some b) \<Rightarrow> resolve_bins getByID rest (bins @ [b]))"

text \<open>The \<open>switch optimizeBy\<close>: \<open>fill_level\<close>, and the distance strategy for anything else.\<close>

definition choose_waypoints ::
  "((Bin \<Rightarrow> Bin \<Rightarrow> bool) \<Rightarrow> Bin list \<Rightarrow> Bin list) \<Rightarrow> haversine \<Rightarrow> string \<Rightarrow> Bin list \<Rightarrow> real
   \<Rightarrow> real \<Rightarrow> Waypoint list option" where
  "choose_waypoints sort_Slice hav optimizeBy bins driverLat driverLng =
     (if optimizeBy = ''fill_level''
      then Some (optimizeByFillLevel sort_Slice hav bins driverLat driverLng)
      else optimizeByDistance hav bins driverLat driverLng)"

text \<open>
  \<open>OptimizeRoute\<close>. \<open>getByID\<close> is the bin repository, \<open>rid\<close> the \<open>uuid.New()\<close> of the route,
  \<open>reply\<close> the answer of the routing service, \<open>sort_Slice\<close> and \<open>hav\<close> the two functions
  that the strategies take. The result is \<open>None\<close> when the call never returns. Marshalling
  the waypoints cannot fail for real coordinates and is left out.
\<close>

definition OptimizeRoute ::
  "((Bin \<Rightarrow> Bin \<Rightarrow> bool) \<Rightarrow> Bin list \<Rightarrow> Bin list) \<Rightarrow> haversine
   \<Rightarrow> (uuid \<Rightarrow> repo_error + Bin option) \<Rightarrow> string
   \<Rightarrow> maps_reply \<Rightarrow> uuid \<Rightarrow> real \<Rightarrow> real \<Rightarrow> uuid list \<Rightarrow> string
   \<Rightarrow> (route_error + DriverRoute) option" where
  "OptimizeRoute sort_Slice hav getByID googleKey reply rid driverLat driverLng binIDs
     optimizeBy =
     (case resolve_bins getByID binIDs [] of
        Inl e \<Rightarrow> Some (Inl e)
      | Inr bins \<Rightarrow>
          if length bins = 0 then Some (Inl NoValidBins)
          else
            (case choose_waypoints sort_Slice hav optimizeBy bins driverLat driverLng of
               None \<Rightarrow> None
             | Some wps \<Rightarrow>
                 (let (totalDistance, duration) = calculateRouteMetrics driverLat driverLng wps;
                      route = \<lparr>DriverRoute.ID = rid, DriverID = 0, WaypointsList = wps,
                               TotalDistanceKm = Some totalDistance,
                               EstimatedDurationMinutes = Some duration,
                               Status = RouteStatusPending\<rparr>
                  in if googleKey \<noteq> ''''
                     then (case getGoogleMapsRoute googleKey reply wps of
                             Inl e \<Rightarrow> Some (Inr route)
                           | Inr optimizedRoute \<Rightarrow>
                               Some (Inr (route
                                 \<lparr>TotalDistanceKm := Some (gm_distance optimizedRoute),
                                  EstimatedDurationMinutes :=
                                    Some (gm_duration optimizedRoute)\<rparr>)))
                     else Some (Inr route))))"

text \<open>
  The route length as the specification describes it: the sum of the legs from the start
  through the waypoints in order.
\<close>

fun path_length :: "real \<Rightarrow> real \<Rightarrow> Waypoint list \<Rightarrow> real" where
  "path_length lat lng [] = 0"
| "path_length lat lng (wp # rest) =
     haversineDistance lat lng (Waypoint.Latitude wp) (Waypoint.Longitude wp)
     + path_length (Waypoint.Latitude wp) (Waypoint.Longitude wp) rest"

subsection \<open>What the nearest-neighbour loop maintains\<close>

text \<open>
  The ids marked in \<open>visited\<close>, the ids that occur among the candidates, and the relation
  between them that every round of the loop keeps: only candidate ids are marked, and
  there are as many waypoints as marked ids.
\<close>

definition visited_ids :: "nn_state \<Rightarrow> uuid set" where
  "visited_ids st = {k. is_visited (nn_visited st) k}"

definition bwd_ids :: "binWithDistance list \<Rightarrow> uuid set" where
  "bwd_ids bwds = (\<lambda>x. Bin.ID (bwd_bin x)) ` set bwds"

definition nn_inv :: "binWithDistance list \<Rightarrow> nn_state \<Rightarrow> bool" where
  "nn_inv bwds st \<longleftrightarrow>
     visited_ids st \<subseteq> bwd_ids bwds \<and> length (nn_waypoints st) = card (visited_ids st)"

text \<open>
  The tour that the specification describes, as a property of a waypoint list: against
  the candidates not yet visited, each waypoint is built from a candidate at least
  distance from the current position, and the rest of the tour starts from that bin with
  that bin removed from the candidates.
\<close>

fun greedy_tour :: "haversine \<Rightarrow> real \<Rightarrow> real \<Rightarrow> Bin list \<Rightarrow> Waypoint list \<Rightarrow> bool" where
  "greedy_tour hav lat lng cand [] = True"
| "greedy_tour hav lat lng cand (w # ws) =
     ((\<exists>b \<in> set cand. w = waypoint_for b (Waypoint.Order w))
      \<and> (\<forall>c \<in> set cand.
            f64_le (hav lat lng (Waypoint.Latitude w) (Waypoint.Longitude w))
                   (hav lat lng (Bin.Latitude c) (Bin.Longitude c)))
      \<and> greedy_tour hav (Waypoint.Latitude w) (Waypoint.Longitude w)
           (filter (\<lambda>c. Bin.ID c \<noteq> Waypoint.BinID w) cand) ws)"

section \<open>Example data\<close>

text \<open>Concrete stores and requests at which the theorems below are instantiated.\<close>

definition ex_no_faults :: faults where
  "ex_no_faults =
     \<lparr>get_err = False, write_err = False, transition_err = False, publish_err = False\<rparr>"

definition ex_store_empty :: store where
  "ex_store_empty = \<lparr>shipments = Map.empty, state_transitions = [], published = []\<rparr>"

definition ex_request :: CreateShipmentRequest where
  "ex_request =
     \<lparr>CreateShipmentRequest.UserID = 7, CollectionID = 8, WasteType = ''glass''\<rparr>"

definition ex_shipment_created :: Shipment where
  "ex_shipment_created =
     \<lparr>Shipment.ID = 1, UserID = 7, DriverID = None, CollectionID = 8,
       WasteType = ''glass'', Status = ''created''\<rparr>"

definition ex_shipment_confirmed :: Shipment where
  "ex_shipment_confirmed =
     \<lparr>Shipment.ID = 1, UserID = 7, DriverID = None, CollectionID = 8,
       WasteType = ''glass'', Status = ''price_confirmed''\<rparr>"

definition ex_store_created :: store where
  "ex_store_created =
     \<lparr>shipments = [1 \<mapsto> ex_shipment_created], state_transitions = [], published = []\<rparr>"

definition ex_store_confirmed :: store where
  "ex_store_confirmed =
     \<lparr>shipments = [1 \<mapsto> ex_shipment_confirmed], state_transitions = [], published = []\<rparr>"

definition ex_bin :: Bin where
  "ex_bin =
     \<lparr>Bin.ID = 11, DeviceID = ''bin-1'', LocationName = None, Latitude = 0, Longitude = 0,
       FillLevel = 85, LastUpdatedAt = 0, IsActive = True\<rparr>"

definition ex_world :: intake_world where
  "ex_world = \<lparr>bin_rows = [ex_bin], logged = [], notify_started = []\<rparr>"

definition ex_bin_ok :: bin_faults where
  "ex_bin_ok = \<lparr>update_err = False, lookup_err = False\<rparr>"

definition ex_report :: "int \<Rightarrow> BinStatusUpdate" where
  "ex_report n = \<lparr>BinStatusUpdate.BinID = ''bin-1'', FillLevel = n\<rparr>"


definition ex_bin_full :: Bin where
  "ex_bin_full =
     \<lparr>Bin.ID = 12, DeviceID = ''bin-2'', LocationName = Some ''Depot'', Latitude = 0,
       Longitude = 0, FillLevel = 95, LastUpdatedAt = 0, IsActive = True\<rparr>"

definition ex_getByID :: "uuid \<Rightarrow> repo_error + Bin option" where
  "ex_getByID = BinRepository_GetByID (\<lambda>bid. False) [ex_bin, ex_bin_full]"

text \<open>
  Two float versions of \<open>haversineDistance\<close> for the examples. The first has the exact value
  of the formula everywhere. The second differs at one pair: from the start at latitude
  2.5 and longitude 0 to the antipodal point at latitude -2.5 and longitude 180. There
  \<open>a\<close> is the sum of the squares of the sine and the cosine of 2.5 degrees, which
  \<open>float64\<close> arithmetic rounds to \<open>1 + 2^-52\<close>, the least \<open>float64\<close> above 1.
\<close>

definition ex_hav_exact :: haversine where
  "ex_hav_exact lat1 lng1 lat2 lng2 = Val (haversineDistance lat1 lng1 lat2 lng2)"

definition ex_hav_antipode :: haversine where
  "ex_hav_antipode lat1 lng1 lat2 lng2 =
     (if lat1 = 5 / 2 \<and> lng1 = 0 \<and> lat2 = - (5 / 2) \<and> lng2 = 180
      then haversine_of_a (1 + 1 / 2 ^ 52)
      else Val (haversineDistance lat1 lng1 lat2 lng2))"

definition ex_bin_antipode :: Bin where
  "ex_bin_antipode =
     \<lparr>Bin.ID = 13, DeviceID = ''bin-3'', LocationName = Some ''Antipode'',
       Latitude = - (5 / 2), Longitude = 180, FillLevel = 85, LastUpdatedAt = 0,
       IsActive = True\<rparr>"

definition ex_bin_far :: Bin where
  "ex_bin_far =
     \<lparr>Bin.ID = 14, DeviceID = ''bin-4'', LocationName = Some ''Far side'',
       Latitude = 0, Longitude = 180, FillLevel = 85, LastUpdatedAt = 0, IsActive = True\<rparr>"
section \<open>Transition table: CanTransitionTo\<close>

lemmas Status_defs =
  StatusCreated_def StatusPriceConfirmed_def StatusDriverAssigned_def StatusPickupStarted_def
  StatusInTransit_def StatusDelivered_def StatusCompleted_def StatusCancelled_def
  StatusDisputed_def StatusResolved_def

lemma range_contains_set: "range_contains xs t = (t \<in> set xs)"
  by (induction xs) auto

lemma ValidTransitions_spec:
  "(case ValidTransitions s of None \<Rightarrow> {} | Some xs \<Rightarrow> set xs) = spec_adjacency s"
  by (simp add: ValidTransitions_def spec_adjacency_def Status_defs)

text \<open>
  Claim C1. \<open>CanTransitionTo\<close> answers true exactly when the target is listed for the
  shipment's status in the adjacency table of the specification; for the terminal
  statuses \<open>cancelled\<close> and \<open>completed\<close>, and for every status that is not a key of the
  table, it answers false whatever the target.
\<close>

theorem CanTransitionTo_iff_table:
  "(CanTransitionTo s t \<longleftrightarrow> t \<in> spec_adjacency (Shipment.Status s))
   \<and> (Shipment.Status s = StatusCancelled \<or> Shipment.Status s = StatusCompleted
        \<or> ValidTransitions (Shipment.Status s) = None
      \<longrightarrow> \<not> CanTransitionTo s t)"
proof
  have "CanTransitionTo s t \<longleftrightarrow>
        t \<in> (case ValidTransitions (Shipment.Status s) of None \<Rightarrow> {} | Some xs \<Rightarrow> set xs)"
    by (simp add: CanTransitionTo_def range_contains_set split: option.split)
  then show "CanTransitionTo s t \<longleftrightarrow> t \<in> spec_adjacency (Shipment.Status s)"
    by (simp only: ValidTransitions_spec)
next
  have terminal: "ValidTransitions StatusCancelled = None" "ValidTransitions StatusCompleted = None"
    by (simp_all add: ValidTransitions_def Status_defs)
  show "Shipment.Status s = StatusCancelled \<or> Shipment.Status s = StatusCompleted
          \<or> ValidTransitions (Shipment.Status s) = None
        \<longrightarrow> \<not> CanTransitionTo s t"
    using terminal by (auto simp: CanTransitionTo_def)
qed

theorem CanTransitionTo_iff_table_witness:
  "CanTransitionTo \<lparr>Shipment.ID = 1, UserID = 2, DriverID = None, CollectionID = 3,
      WasteType = ''glass'', Status = ''created''\<rparr> ''price_confirmed''
   \<and> \<not> CanTransitionTo \<lparr>Shipment.ID = 1, UserID = 2, DriverID = None, CollectionID = 3,
      WasteType = ''glass'', Status = ''created''\<rparr> ''driver_assigned''
   \<and> \<not> CanTransitionTo \<lparr>Shipment.ID = 1, UserID = 2, DriverID = None, CollectionID = 3,
      WasteType = ''glass'', Status = ''cancelled''\<rparr> ''created''
   \<and> \<not> CanTransitionTo \<lparr>Shipment.ID = 1, UserID = 2, DriverID = None, CollectionID = 3,
      WasteType = ''glass'', Status = ''lost''\<rparr> ''created''"
  using CanTransitionTo_iff_table
    [of "\<lparr>Shipment.ID = 1, UserID = 2, DriverID = None, CollectionID = 3,
          WasteType = ''glass'', Status = ''created''\<rparr>" "''price_confirmed''"]
    CanTransitionTo_iff_table
    [of "\<lparr>Shipment.ID = 1, UserID = 2, DriverID = None, CollectionID = 3,
          WasteType = ''glass'', Status = ''created''\<rparr>" "''driver_assigned''"]
    CanTransitionTo_iff_table
    [of "\<lparr>Shipment.ID = 1, UserID = 2, DriverID = None, CollectionID = 3,
          WasteType = ''glass'', Status = ''cancelled''\<rparr>" "''created''"]
    CanTransitionTo_iff_table
    [of "\<lparr>Shipment.ID = 1, UserID = 2, DriverID = None, CollectionID = 3,
          WasteType = ''glass'', Status = ''lost''\<rparr>" "''created''"]
  by (simp add: spec_adjacency_def ValidTransitions_def Status_defs)

section \<open>Lifecycle service: rejected transitions and the audit trail\<close>

lemma latest_toStatus_append:
  "ShipmentID t = sid \<Longrightarrow>
   latest_toStatus (db\<lparr>state_transitions := state_transitions db @ [t]\<rparr>) sid = Some (ToStatus t)"
  by (simp add: latest_toStatus_def)

lemma latest_toStatus_published [simp]:
  "latest_toStatus (publishEvent f topic d db) sid = latest_toStatus db sid"
  by (simp add: latest_toStatus_def publishEvent_def)

lemma stored_status_published [simp]:
  "stored_status (publishEvent f topic d db) sid = stored_status db sid"
  by (simp add: stored_status_def publishEvent_def)

lemma TransitionRepository_Create_ok:
  assumes "TransitionRepository_Create f t db = (None, db')"
  shows "latest_toStatus db' (ShipmentID t) = Some (ToStatus t)"
    and "shipments db' = shipments db"
    and "shipments db (ShipmentID t) \<noteq> None"
  using assms
  by (auto simp: TransitionRepository_Create_def Let_def latest_toStatus_append
           split: if_splits)

lemma TransitionRepository_Create_succeeds:
  assumes "\<not> transition_err f" and "shipments db (ShipmentID t) \<noteq> None"
    and "StateTransition.ID t \<notin> set (map StateTransition.ID (state_transitions db))"
  shows "fst (TransitionRepository_Create f t db) = None"
  using assms by (auto simp: TransitionRepository_Create_def Let_def)

lemma stored_status_shipments:
  "shipments db' = shipments db \<Longrightarrow> stored_status db' sid = stored_status db sid"
  by (simp add: stored_status_def)

lemma UpdateStatus_ok:
  assumes "ShipmentRepository_UpdateStatus f sid st db = (None, db1)"
    and "shipments db1 sid \<noteq> None"
  shows "stored_status db1 sid = Some st"
  using assms
  by (auto simp: ShipmentRepository_UpdateStatus_def stored_status_def
           split: if_splits option.splits)

lemma AssignDriver_repo_ok:
  assumes "ShipmentRepository_AssignDriver f sid d db = (None, db1)"
    and "shipments db1 sid \<noteq> None"
  shows "stored_status db1 sid = Some StatusDriverAssigned"
  using assms
  by (auto simp: ShipmentRepository_AssignDriver_def stored_status_def
           split: if_splits option.splits)

lemma Create_repo_ok:
  assumes "ShipmentRepository_Create f s db = (None, db1)"
  shows "stored_status db1 (Shipment.ID s) = Some (Shipment.Status s)"
  using assms
  by (auto simp: ShipmentRepository_Create_def stored_status_def split: if_splits)

lemma updateStatusAndRecord_ok:
  assumes "updateStatusAndRecord f tid shipment newStatus triggeredBy role proofHash signature
             mdBytes db = (None, db')"
  shows "stored_status db' (Shipment.ID shipment) = Some newStatus"
    and "latest_toStatus db' (Shipment.ID shipment) = Some newStatus"
proof -
  from assms obtain db1 db2 where
    u: "ShipmentRepository_UpdateStatus f (Shipment.ID shipment) newStatus db = (None, db1)" and
    t: "TransitionRepository_Create f
          \<lparr>StateTransition.ID = tid, ShipmentID = Shipment.ID shipment,
             FromStatus = Some (Shipment.Status shipment), ToStatus = newStatus,
             TriggeredBy = triggeredBy, TriggeredByRole = role,
             ProofHash = proofHash, Signature = signature, Metadata = mdBytes\<rparr> db1 = (None, db2)" and
    p: "db' = publishEvent f (getTopicForStatus newStatus)
               (StatusData (Shipment.ID shipment) newStatus triggeredBy) db2"
    by (auto simp: updateStatusAndRecord_def Let_def split: if_splits prod.splits option.splits)
  from TransitionRepository_Create_ok[OF t]
  have l: "latest_toStatus db2 (Shipment.ID shipment) = Some newStatus"
    and s: "shipments db2 = shipments db1" and e: "shipments db1 (Shipment.ID shipment) \<noteq> None"
    by simp_all
  from UpdateStatus_ok[OF u e] stored_status_shipments[OF s]
  show "stored_status db' (Shipment.ID shipment) = Some newStatus" by (simp add: p)
  from l show "latest_toStatus db' (Shipment.ID shipment) = Some newStatus" by (simp add: p)
qed


lemma Create_repo_ok2:
  assumes "ShipmentRepository_Create f s db = (None, db1)"
  shows "state_transitions db1 = state_transitions db"
  using assms
  by (auto simp: ShipmentRepository_Create_def split: if_splits)

lemma AssignDriver_repo_ok2:
  assumes "ShipmentRepository_AssignDriver f sid d db = (None, db1)"
  shows "state_transitions db1 = state_transitions db"
    and "shipments db sid \<noteq> None \<Longrightarrow> shipments db1 sid \<noteq> None"
  using assms
  by (auto simp: ShipmentRepository_AssignDriver_def split: if_splits option.splits)

lemma TransitionRepository_Create_obtain:
  assumes "\<not> transition_err f" and "shipments db (ShipmentID t) \<noteq> None"
    and "StateTransition.ID t \<notin> set (map StateTransition.ID (state_transitions db))"
  obtains db2 where "TransitionRepository_Create f t db = (None, db2)"
  using TransitionRepository_Create_succeeds[OF assms]
  by (cases "TransitionRepository_Create f t db") simp

lemma CreateShipment_ok:
  assumes c: "CreateShipment f sid tid req db = (Inr sh, db')"
    and nf: "\<not> transition_err f"
    and fresh: "tid \<notin> set (map StateTransition.ID (state_transitions db))"
  shows "stored_status db' sid = Some StatusCreated"
    and "latest_toStatus db' sid = Some StatusCreated"
proof -
  let ?s = "\<lparr>Shipment.ID = sid, UserID = CreateShipmentRequest.UserID req, DriverID = None,
             CollectionID = CreateShipmentRequest.CollectionID req,
             WasteType = CreateShipmentRequest.WasteType req, Status = StatusCreated\<rparr>"
  let ?t = "\<lparr>StateTransition.ID = tid, ShipmentID = sid, FromStatus = None,
             ToStatus = StatusCreated, TriggeredBy = CreateShipmentRequest.UserID req,
             TriggeredByRole = ''user'', ProofHash = None, Signature = None, Metadata = None\<rparr>"
  from c obtain db1 where
    r: "ShipmentRepository_Create f ?s db = (None, db1)" and
    p: "db' = publishEvent f TopicShipmentCreated (ShipmentData ?s)
               (snd (TransitionRepository_Create f ?t db1))"
    by (auto simp: CreateShipment_def Let_def split: prod.splits option.splits)
  from Create_repo_ok[OF r] have st: "stored_status db1 sid = Some StatusCreated" by simp
  then have ex: "shipments db1 (ShipmentID ?t) \<noteq> None" by (auto simp: stored_status_def)
  from fresh Create_repo_ok2[OF r]
  have fr: "StateTransition.ID ?t \<notin> set (map StateTransition.ID (state_transitions db1))" by simp
  from TransitionRepository_Create_obtain[OF nf ex fr]
  obtain db2 where t: "TransitionRepository_Create f ?t db1 = (None, db2)" .
  from TransitionRepository_Create_ok[OF t]
  have l: "latest_toStatus db2 sid = Some StatusCreated" and s: "shipments db2 = shipments db1"
    by simp_all
  from st stored_status_shipments[OF s]
  show "stored_status db' sid = Some StatusCreated" by (simp add: p t)
  from l show "latest_toStatus db' sid = Some StatusCreated" by (simp add: p t)
qed

lemma AssignDriver_ok:
  assumes c: "AssignDriver f tid sid driverID db = (None, db')"
    and nf: "\<not> transition_err f"
    and fresh: "tid \<notin> set (map StateTransition.ID (state_transitions db))"
  shows "stored_status db' sid = Some StatusDriverAssigned"
    and "latest_toStatus db' sid = Some StatusDriverAssigned"
proof -
  from c obtain shipment where g: "shipments db sid = Some shipment"
    by (auto simp: AssignDriver_def ShipmentRepository_GetByID_def
             split: if_splits sum.splits option.splits)
  let ?t = "\<lparr>StateTransition.ID = tid, ShipmentID = sid, FromStatus = Some (Shipment.Status shipment),
             ToStatus = StatusDriverAssigned, TriggeredBy = driverID,
             TriggeredByRole = ''driver'', ProofHash = None, Signature = None, Metadata = None\<rparr>"
  from c g obtain db1 where
    r: "ShipmentRepository_AssignDriver f sid driverID db = (None, db1)" and
    p: "db' = publishEvent f TopicDriverAssigned (AssignedData sid driverID)
               (snd (TransitionRepository_Create f ?t db1))"
    by (auto simp: AssignDriver_def ShipmentRepository_GetByID_def Let_def
             split: if_splits prod.splits option.splits)
  from g AssignDriver_repo_ok2(2)[OF r] have ex: "shipments db1 (ShipmentID ?t) \<noteq> None" by simp
  then have st: "stored_status db1 sid = Some StatusDriverAssigned"
    using AssignDriver_repo_ok[OF r] by simp
  from fresh AssignDriver_repo_ok2(1)[OF r]
  have fr: "StateTransition.ID ?t \<notin> set (map StateTransition.ID (state_transitions db1))" by simp
  from TransitionRepository_Create_obtain[OF nf ex fr]
  obtain db2 where t: "TransitionRepository_Create f ?t db1 = (None, db2)" .
  from TransitionRepository_Create_ok[OF t]
  have l: "latest_toStatus db2 sid = Some StatusDriverAssigned"
    and s: "shipments db2 = shipments db1"
    by simp_all
  from st stored_status_shipments[OF s]
  show "stored_status db' sid = Some StatusDriverAssigned" by (simp add: p t)
  from l show "latest_toStatus db' sid = Some StatusDriverAssigned" by (simp add: p t)
qed

text \<open>
  Claim C3. When the transition table does not allow the requested target from the
  shipment's current status, \<open>AssignDriver\<close> (for the stored shipment it has read) and
  \<open>updateStatusAndRecord\<close> (for the shipment it is given) return an invalid-transition
  error and hand back the store as it was: the stored status, the transition rows and the
  published events are all unchanged.
\<close>

theorem invalid_transition_rejected_without_write:
  "(\<not> get_err f \<and> shipments db sid = Some sh \<and> \<not> CanTransitionTo sh StatusDriverAssigned
      \<longrightarrow> (\<exists>e. AssignDriver f tid sid driverID db = (Some e, db) \<and> is_InvalidTransition e))
   \<and> (\<not> CanTransitionTo shipment newStatus
      \<longrightarrow> (\<exists>e. updateStatusAndRecord f tid shipment newStatus triggeredBy role proofHash
                   signature mdBytes db = (Some e, db)
                \<and> is_InvalidTransition e))"
  by (simp add: AssignDriver_def updateStatusAndRecord_def ShipmentRepository_GetByID_def)

theorem invalid_transition_rejected_without_write_witness:
  "AssignDriver ex_no_faults 6 1 9 ex_store_created
     = (Some (CannotTransition ''created'' ''driver_assigned''), ex_store_created)
   \<and> updateStatusAndRecord ex_no_faults 6 ex_shipment_created ''delivered'' 7 ''user'' None None
         None ex_store_created
     = (Some (InvalidTransition ''created'' ''delivered''), ex_store_created)"
  using invalid_transition_rejected_without_write
    [where f = ex_no_faults and db = ex_store_created and sid = 1 and sh = ex_shipment_created
       and tid = 6 and driverID = 9 and shipment = ex_shipment_created
       and newStatus = "''delivered''" and triggeredBy = 7 and role = "''user''"
       and proofHash = None and signature = None and mdBytes = None]
  by (simp add: AssignDriver_def updateStatusAndRecord_def ShipmentRepository_GetByID_def
                CanTransitionTo_def ValidTransitions_def Status_defs ex_no_faults_def
                ex_store_created_def ex_shipment_created_def)

lemmas ex_defs =
  ex_no_faults_def ex_store_empty_def ex_request_def ex_shipment_created_def
  ex_shipment_confirmed_def ex_store_created_def ex_store_confirmed_def

lemmas svc_defs =
  CreateShipment_def updateStatusAndRecord_def AssignDriver_def Let_def
  ShipmentRepository_Create_def ShipmentRepository_GetByID_def
  ShipmentRepository_UpdateStatus_def ShipmentRepository_AssignDriver_def
  TransitionRepository_Create_def publishEvent_def CanTransitionTo_def ValidTransitions_def
  Status_defs getTopicForStatus_def TopicShipmentCreated_def TopicPriceConfirmed_def
  TopicDriverAssigned_def

text \<open>
  Claim C2 as stated does not hold: \<open>CreateShipment\<close> drops the error of the transition
  insert and still reports success. With a failing insert the shipment is stored with
  status \<open>created\<close> while the transition table has no row for it.
\<close>

theorem create_without_transition_counterexample:
  "fst (CreateShipment (ex_no_faults\<lparr>transition_err := True\<rparr>) 1 2 ex_request ex_store_empty)
     = Inr ex_shipment_created
   \<and> stored_status
        (snd (CreateShipment (ex_no_faults\<lparr>transition_err := True\<rparr>) 1 2 ex_request
                ex_store_empty)) 1 = Some ''created''
   \<and> state_transitions
        (snd (CreateShipment (ex_no_faults\<lparr>transition_err := True\<rparr>) 1 2 ex_request
                ex_store_empty)) = []
   \<and> \<not> status_matches_log
          (snd (CreateShipment (ex_no_faults\<lparr>transition_err := True\<rparr>) 1 2 ex_request
                  ex_store_empty)) 1"
  by (simp add: ex_defs svc_defs status_matches_log_def stored_status_def latest_toStatus_def)

text \<open>
  Claim C2, amended. After a successful \<open>updateStatusAndRecord\<close> the stored status of the
  shipment is the new status and equals the \<open>toStatus\<close> of the transition appended last
  for it. After a successful \<open>CreateShipment\<close> or \<open>AssignDriver\<close> the same holds whenever
  the insert of the transition row did not fail (no database fault, fresh row id).
\<close>

theorem lifecycle_status_matches_log:
  "(updateStatusAndRecord f tid shipment newStatus triggeredBy role proofHash signature mdBytes db
      = (None, db')
      \<longrightarrow> stored_status db' (Shipment.ID shipment) = Some newStatus
          \<and> status_matches_log db' (Shipment.ID shipment))
   \<and> (CreateShipment f sid tid req db = (Inr sh, db') \<and> \<not> transition_err f
        \<and> tid \<notin> set (map StateTransition.ID (state_transitions db))
      \<longrightarrow> stored_status db' sid = Some StatusCreated \<and> status_matches_log db' sid)
   \<and> (AssignDriver f tid sid driverID db = (None, db') \<and> \<not> transition_err f
        \<and> tid \<notin> set (map StateTransition.ID (state_transitions db))
      \<longrightarrow> stored_status db' sid = Some StatusDriverAssigned \<and> status_matches_log db' sid)"
proof (intro conjI impI)
  assume a: "updateStatusAndRecord f tid shipment newStatus triggeredBy role proofHash signature
               mdBytes db = (None, db')"
  from updateStatusAndRecord_ok[OF a]
  show "stored_status db' (Shipment.ID shipment) = Some newStatus"
    and "status_matches_log db' (Shipment.ID shipment)"
    by (simp_all add: status_matches_log_def)
next
  assume a: "CreateShipment f sid tid req db = (Inr sh, db') \<and> \<not> transition_err f
             \<and> tid \<notin> set (map StateTransition.ID (state_transitions db))"
  then have "stored_status db' sid = Some StatusCreated"
    and "latest_toStatus db' sid = Some StatusCreated"
    using CreateShipment_ok[of f sid tid req db sh db'] by blast+
  then show "stored_status db' sid = Some StatusCreated" and "status_matches_log db' sid"
    by (simp_all add: status_matches_log_def)
next
  assume a: "AssignDriver f tid sid driverID db = (None, db') \<and> \<not> transition_err f
             \<and> tid \<notin> set (map StateTransition.ID (state_transitions db))"
  then have "stored_status db' sid = Some StatusDriverAssigned"
    and "latest_toStatus db' sid = Some StatusDriverAssigned"
    using AssignDriver_ok[of f tid sid driverID db db'] by blast+
  then show "stored_status db' sid = Some StatusDriverAssigned" and "status_matches_log db' sid"
    by (simp_all add: status_matches_log_def)
qed

theorem lifecycle_status_matches_log_witness:
  "fst (updateStatusAndRecord ex_no_faults 5 ex_shipment_created ''price_confirmed'' 7 ''user''
          None None None ex_store_created) = None
   \<and> status_matches_log
        (snd (updateStatusAndRecord ex_no_faults 5 ex_shipment_created ''price_confirmed'' 7
                ''user'' None None None ex_store_created)) 1
   \<and> stored_status
        (snd (updateStatusAndRecord ex_no_faults 5 ex_shipment_created ''price_confirmed'' 7
                ''user'' None None None ex_store_created)) 1 = Some ''price_confirmed''
   \<and> fst (CreateShipment ex_no_faults 1 2 ex_request ex_store_empty) = Inr ex_shipment_created
   \<and> status_matches_log (snd (CreateShipment ex_no_faults 1 2 ex_request ex_store_empty)) 1
   \<and> fst (AssignDriver ex_no_faults 6 1 9 ex_store_confirmed) = None
   \<and> status_matches_log (snd (AssignDriver ex_no_faults 6 1 9 ex_store_confirmed)) 1"
  using lifecycle_status_matches_log
    [where f = ex_no_faults and tid = 5 and shipment = ex_shipment_created
       and newStatus = "''price_confirmed''" and triggeredBy = 7 and role = "''user''"
       and proofHash = None and signature = None and mdBytes = None and db = ex_store_created
       and db' = "snd (updateStatusAndRecord ex_no_faults 5 ex_shipment_created
                         ''price_confirmed'' 7 ''user'' None None None ex_store_created)"]
    lifecycle_status_matches_log
    [where f = ex_no_faults and sid = 1 and tid = 2 and req = ex_request
       and db = ex_store_empty and sh = ex_shipment_created
       and db' = "snd (CreateShipment ex_no_faults 1 2 ex_request ex_store_empty)"]
    lifecycle_status_matches_log
    [where f = ex_no_faults and tid = 6 and sid = 1 and driverID = 9
       and db = ex_store_confirmed
       and db' = "snd (AssignDriver ex_no_faults 6 1 9 ex_store_confirmed)"]
  by (simp add: ex_defs svc_defs)

section \<open>Telemetry intake: validation and dispatch trigger\<close>

lemmas intake_defs =
  processBinStatus_def log_line_def BinRepository_UpdateFillLevel_def
  BinRepository_GetByDeviceID_def Let_def NewClient_def

lemmas intake_ex_defs = ex_world_def ex_bin_def ex_bin_ok_def ex_report_def

text \<open>
  Claim C4. A report whose fill level is below 0 or above 100 changes no row of the bins
  table (neither fill level nor timestamp), starts no dispatch, and is reported as an
  invalid fill level: the handler has no return value, its report is the log line.
\<close>

theorem out_of_range_report_rejected:
  "BinStatusUpdate.FillLevel status < 0 \<or> BinStatusUpdate.FillLevel status > 100 \<Longrightarrow>
   bin_rows (processBinStatus c f now (Some status) w) = bin_rows w
   \<and> notify_started (processBinStatus c f now (Some status) w) = notify_started w
   \<and> logged (processBinStatus c f now (Some status) w) =
       logged w @ [LogProcessing (BinStatusUpdate.BinID status) (BinStatusUpdate.FillLevel status),
                   LogInvalidFillLevel (BinStatusUpdate.FillLevel status)
                     (BinStatusUpdate.BinID status)]"
  by (auto simp: intake_defs)

theorem out_of_range_report_rejected_witness:
  "processBinStatus NewClient ex_bin_ok 5 (Some (ex_report 101)) ex_world
     = ex_world\<lparr>logged := [LogProcessing ''bin-1'' 101, LogInvalidFillLevel 101 ''bin-1'']\<rparr>
   \<and> bin_rows (processBinStatus NewClient ex_bin_ok 5 (Some (ex_report (- 1))) ex_world) = [ex_bin]"
  using out_of_range_report_rejected [of "ex_report 101" NewClient ex_bin_ok 5 ex_world]
    out_of_range_report_rejected [of "ex_report (- 1)" NewClient ex_bin_ok 5 ex_world]
  by (simp add: ex_world_def ex_report_def)

lemma find_after_update:
  "dev \<in> Bin.DeviceID ` set rows \<Longrightarrow>
   \<exists>b. find (\<lambda>b. Bin.DeviceID b = dev)
         (map (\<lambda>b. if Bin.DeviceID b = dev
                  then b\<lparr>Bin.FillLevel := v, LastUpdatedAt := t\<rparr> else b) rows)
       = Some b"
  by (induction rows) auto

lemma device_ids_after_update:
  "Bin.DeviceID ` set (map (\<lambda>b. if Bin.DeviceID b = dev
                               then b\<lparr>Bin.FillLevel := v, LastUpdatedAt := t\<rparr> else b) rows)
   = Bin.DeviceID ` set rows"
  by (induction rows) auto

lemma processBinStatus_accepted:
  assumes "\<not> update_err f" and "\<not> lookup_err f"
    and "BinStatusUpdate.BinID status \<in> Bin.DeviceID ` set (bin_rows w)"
    and "0 \<le> BinStatusUpdate.FillLevel status" and "BinStatusUpdate.FillLevel status \<le> 100"
  shows "Bin.DeviceID ` set (bin_rows (processBinStatus c f now (Some status) w))
         = Bin.DeviceID ` set (bin_rows w)"
    and "length (notify_started (processBinStatus c f now (Some status) w)) =
         length (notify_started w)
         + (if BinStatusUpdate.FillLevel status \<ge> fillLevelThreshold c then 1 else 0)"
proof -
  let ?upd = "\<lambda>b. if Bin.DeviceID b = BinStatusUpdate.BinID status
                  then b\<lparr>Bin.FillLevel := BinStatusUpdate.FillLevel status,
                         LastUpdatedAt := now\<rparr> else b"
  from find_after_update [OF assms(3)] obtain b where
    b: "find (\<lambda>b. Bin.DeviceID b = BinStatusUpdate.BinID status) (map ?upd (bin_rows w)) = Some b"
    by blast
  have "bin_rows (processBinStatus c f now (Some status) w) = map ?upd (bin_rows w)"
    using assms b by (simp add: intake_defs)
  then show "Bin.DeviceID ` set (bin_rows (processBinStatus c f now (Some status) w))
             = Bin.DeviceID ` set (bin_rows w)"
    by (simp only: device_ids_after_update)
  show "length (notify_started (processBinStatus c f now (Some status) w)) =
        length (notify_started w)
        + (if BinStatusUpdate.FillLevel status \<ge> fillLevelThreshold c then 1 else 0)"
    using assms b by (simp add: intake_defs)
qed

text \<open>
  Claim C5 as stated does not hold: the handler compares only the new value with the
  threshold. A bin at 85 that reports 95 and then 97 has a dispatch started for each of
  the two reports, although the second one finds the bin already at 95.
\<close>

theorem repeated_report_counterexample:
  "map Bin.FillLevel (bin_rows ex_world) = [85]
   \<and> map Bin.FillLevel (bin_rows (process_reports NewClient ex_bin_ok [(5, ex_report 95)] ex_world))
       = [95]
   \<and> length (notify_started
        (process_reports NewClient ex_bin_ok [(5, ex_report 95)] ex_world)) = 1
   \<and> length (notify_started
        (process_reports NewClient ex_bin_ok [(5, ex_report 95), (6, ex_report 97)] ex_world)) = 2"
  by (simp add: intake_defs intake_ex_defs)

text \<open>
  Claim C5, amended. For every sequence of accepted reports for the same registered bin
  (values within 0..100, no directory failure), every report whose value is at or above
  the threshold starts exactly one dispatch, whatever the value before it was, and a report
  below the threshold starts none: the number of dispatches started is the number of
  reports at or above the threshold.
\<close>

theorem dispatch_on_every_report_at_or_above_threshold:
  assumes "\<not> update_err f" and "\<not> lookup_err f"
    and "dev \<in> Bin.DeviceID ` set (bin_rows w)"
    and "\<forall>r \<in> set reports. BinStatusUpdate.BinID (snd r) = dev
           \<and> 0 \<le> BinStatusUpdate.FillLevel (snd r) \<and> BinStatusUpdate.FillLevel (snd r) \<le> 100"
  shows "length (notify_started (process_reports c f reports w)) =
         length (notify_started w)
         + length (filter (\<lambda>r. BinStatusUpdate.FillLevel (snd r) \<ge> fillLevelThreshold c) reports)"
  using assms(3,4)
proof (induction reports arbitrary: w)
  case Nil
  then show ?case by simp
next
  case (Cons r reports)
  obtain now status where r: "r = (now, status)" by (cases r)
  from Cons.prems r have acc: "BinStatusUpdate.BinID status \<in> Bin.DeviceID ` set (bin_rows w)"
    "0 \<le> BinStatusUpdate.FillLevel status" "BinStatusUpdate.FillLevel status \<le> 100"
    by auto
  note step = processBinStatus_accepted [OF assms(1,2) acc, of c now]
  have "dev \<in> Bin.DeviceID ` set (bin_rows (processBinStatus c f now (Some status) w))"
    using step(1) Cons.prems(1) by simp
  from Cons.IH [OF this] Cons.prems(2) step(2) show ?case
    by (simp add: r)
qed

theorem dispatch_on_every_report_witness:
  "length (notify_started
     (process_reports NewClient ex_bin_ok
        [(5, ex_report 95), (6, ex_report 97), (7, ex_report 40)] ex_world)) = 2"
  using dispatch_on_every_report_at_or_above_threshold
    [of ex_bin_ok "''bin-1''" ex_world "[(5, ex_report 95), (6, ex_report 97), (7, ex_report 40)]"
        NewClient]
  by (simp add: intake_ex_defs NewClient_def)

section \<open>Dispatch: the nil location name\<close>





section \<open>Route optimizer: the nearest-neighbour loop on repeated bins\<close>

lemma scan_nearest_Some:
  "fst (scan_nearest hav v lat lng bwds nearest m) = Some b \<Longrightarrow>
   nearest = Some b \<or> (b \<in> bwd_bin ` set bwds \<and> \<not> is_visited v (Bin.ID b))"
  by (induction bwds arbitrary: nearest m) (auto simp: Let_def split: if_splits)

lemma find_nearest_Some:
  "find_nearest hav bwds st = Some b \<Longrightarrow>
   b \<in> bwd_bin ` set bwds \<and> \<not> is_visited (nn_visited st) (Bin.ID b)"
  unfolding find_nearest_def using scan_nearest_Some by fastforce

lemma visited_ids_visit: "visited_ids (visit st b) = insert (Bin.ID b) (visited_ids st)"
  by (auto simp: visited_ids_def visit_def is_visited_def)

lemma nn_inv_step:
  assumes inv: "nn_inv bwds st" and found: "find_nearest hav bwds st = Some b"
  shows "nn_inv bwds (visit st b)"
proof -
  from find_nearest_Some [OF found]
  have b: "b \<in> bwd_bin ` set bwds" and nv: "\<not> is_visited (nn_visited st) (Bin.ID b)"
    by auto
  have fin: "finite (visited_ids st)"
    using inv by (auto simp: nn_inv_def bwd_ids_def intro: finite_subset)
  have notin: "Bin.ID b \<notin> visited_ids st" using nv by (simp add: visited_ids_def)
  have "length (nn_waypoints (visit st b)) = Suc (length (nn_waypoints st))"
    by (simp add: visit_def)
  with inv b fin notin show ?thesis
    unfolding nn_inv_def visited_ids_visit by (auto simp: bwd_ids_def)
qed

lemma nn_loop_diverges_aux:
  assumes "nearest_neighbor_loop hav bwds n st = Some y"
  shows "card (bwd_ids bwds) < n \<longrightarrow> nn_inv bwds st \<longrightarrow> False"
proof (rule nearest_neighbor_loop.raw_induct
         [where P = "\<lambda>hav bwds n st y. card (bwd_ids bwds) < n \<longrightarrow> nn_inv bwds st \<longrightarrow> False",
          OF _ assms])
  fix loop :: "haversine \<Rightarrow> binWithDistance list \<Rightarrow> nat \<Rightarrow> nn_state \<Rightarrow> Waypoint list option"
    and hav bwds n st y
  assume IH: "\<And>hav bwds n st y. loop hav bwds n st = Some y \<Longrightarrow>
                card (bwd_ids bwds) < n \<longrightarrow> nn_inv bwds st \<longrightarrow> False"
    and step: "(if length (nn_waypoints st) < n then
                  (case find_nearest hav bwds st of
                     None \<Rightarrow> loop hav bwds n st
                   | Some nearest \<Rightarrow> loop hav bwds n (visit st nearest))
                else Some (nn_waypoints st)) = Some y"
  show "card (bwd_ids bwds) < n \<longrightarrow> nn_inv bwds st \<longrightarrow> False"
  proof (intro impI)
    assume c: "card (bwd_ids bwds) < n" and i: "nn_inv bwds st"
    have fin: "finite (bwd_ids bwds)" by (simp add: bwd_ids_def)
    from i have "length (nn_waypoints st) \<le> card (bwd_ids bwds)"
      by (auto simp: nn_inv_def intro: card_mono [OF fin])
    with c have lt: "length (nn_waypoints st) < n" by simp
    show False
    proof (cases "find_nearest hav bwds st")
      case None
      with step lt have "loop hav bwds n st = Some y" by simp
      from IH [OF this] c i show False by blast
    next
      case (Some b)
      with step lt have "loop hav bwds n (visit st b) = Some y" by simp
      from IH [OF this] c nn_inv_step [OF i Some] show False by blast
    qed
  qed
qed

lemma optimizeByDistance_diverges:
  assumes "\<not> distinct (map Bin.ID bins)"
  shows "optimizeByDistance hav bins driverLat driverLng = None"
proof -
  let ?bwds = "map (\<lambda>b. \<lparr>bwd_bin = b,
                         bwd_distance = hav driverLat driverLng
                                          (Bin.Latitude b) (Bin.Longitude b)\<rparr>) bins"
  let ?st = "\<lparr>nn_waypoints = [], nn_currentLat = driverLat, nn_currentLng = driverLng,
              nn_visited = Map.empty\<rparr>"
  have ids: "bwd_ids ?bwds = set (map Bin.ID bins)" by (simp add: bwd_ids_def image_image)
  have "card (set (map Bin.ID bins)) \<noteq> length (map Bin.ID bins)"
    using assms card_distinct by blast
  moreover have "card (set (map Bin.ID bins)) \<le> length (map Bin.ID bins)"
    by (rule card_length)
  ultimately have c: "card (bwd_ids ?bwds) < length bins" unfolding ids by simp
  have i: "nn_inv ?bwds ?st" by (simp add: nn_inv_def visited_ids_def is_visited_def)
  have "nearest_neighbor_loop hav ?bwds (length bins) ?st = None"
  proof (cases "nearest_neighbor_loop hav ?bwds (length bins) ?st")
    case (Some y)
    from nn_loop_diverges_aux [OF Some] c i show ?thesis by blast
  qed simp
  then show ?thesis by (simp add: optimizeByDistance_def Let_def)
qed

lemma distinct_count_list_le: "distinct xs \<Longrightarrow> count_list xs x \<le> 1"
  by (induction xs) (auto simp: count_list_0_iff)

lemma count_list_filter: "P x \<Longrightarrow> count_list (filter P xs) x = count_list xs x"
  by (induction xs) auto

lemma resolve_bins_no_error:
  assumes "\<forall>bid \<in> set binIDs. \<not> failing bid"
  shows "resolve_bins (BinRepository_GetByID failing rows) binIDs acc =
         Inr (acc @ List.map_filter (\<lambda>bid. find (\<lambda>b. Bin.ID b = bid) rows) binIDs)"
  using assms
  by (induction binIDs arbitrary: acc)
     (auto simp: BinRepository_GetByID_def List.map_filter_simps split: option.splits)

lemma find_id: "find (\<lambda>b. Bin.ID b = bid) rows = Some b \<Longrightarrow> Bin.ID b = bid"
  by (auto simp: find_Some_iff)

lemma find_id_None: "find (\<lambda>b. Bin.ID b = bid) rows = None \<longleftrightarrow> bid \<notin> Bin.ID ` set rows"
  by (auto simp: find_None_iff)

lemma resolved_ids:
  "map Bin.ID (List.map_filter (\<lambda>bid. find (\<lambda>b. Bin.ID b = bid) rows) binIDs)
   = filter (\<lambda>bid. bid \<in> Bin.ID ` set rows) binIDs"
proof (induction binIDs)
  case Nil
  then show ?case by (simp add: List.map_filter_simps)
next
  case (Cons bid binIDs)
  show ?case
  proof (cases "find (\<lambda>b. Bin.ID b = bid) rows")
    case None
    then show ?thesis using Cons find_id_None[of bid rows] by (simp add: List.map_filter_simps)
  next
    case (Some b)
    then have "bid \<in> Bin.ID ` set rows" using find_id_None[of bid rows] by simp
    with Some Cons find_id[OF Some] show ?thesis by (simp add: List.map_filter_simps)
  qed
qed

text \<open>
  Claim C9. When every lookup succeeds, the strategy is the distance strategy (anything but
  \<open>fill_level\<close>) and some bin id that resolves occurs at least twice in the id list, the
  nearest-neighbour loop never ends and \<open>OptimizeRoute\<close> does not return: the list of
  resolved bins then holds one bin twice, \<open>visited\<close> is keyed by bin id, and the number of
  waypoints stays below the number of bins.
\<close>

theorem duplicate_bin_id_never_returns:
  assumes "\<forall>bid \<in> set binIDs. \<not> failing bid"
    and "optimizeBy \<noteq> ''fill_level''"
    and "bid \<in> Bin.ID ` set rows" and "count_list binIDs bid \<ge> 2"
  shows "OptimizeRoute sort_Slice hav (BinRepository_GetByID failing rows) googleKey reply rid
           driverLat driverLng binIDs optimizeBy = None"
proof -
  let ?bins = "List.map_filter (\<lambda>bid. find (\<lambda>b. Bin.ID b = bid) rows) binIDs"
  have r: "resolve_bins (BinRepository_GetByID failing rows) binIDs [] = Inr ?bins"
    using resolve_bins_no_error[OF assms(1), of rows "[]"] by simp
  have "count_list (map Bin.ID ?bins) bid \<ge> 2"
    unfolding resolved_ids using assms(3,4) by (simp add: count_list_filter)
  then have nd: "\<not> distinct (map Bin.ID ?bins)"
    using distinct_count_list_le[of "map Bin.ID ?bins" bid] by auto
  then have ne: "?bins \<noteq> []" by auto
  from optimizeByDistance_diverges[OF nd]
  have "choose_waypoints sort_Slice hav optimizeBy ?bins driverLat driverLng = None"
    using assms(2) by (simp add: choose_waypoints_def)
  with r ne show ?thesis by (simp add: OptimizeRoute_def)
qed

theorem duplicate_bin_id_never_returns_witness:
  "OptimizeRoute insertion_sort ex_hav_exact ex_getByID '''' GetFailed 1 0 0 [11, 12, 11]
     ''distance'' = None"
  using duplicate_bin_id_never_returns
    [of "[11, 12, 11]" "\<lambda>bid. False" "''distance''" 11 "[ex_bin, ex_bin_full]" insertion_sort
        ex_hav_exact "''''" GetFailed 1 0 0]
  by (simp add: ex_getByID_def ex_bin_def ex_bin_full_def)

text \<open>
  Claim C6 says that the distance strategy returns a tour for every non-empty list of
  resolved bins. On the list that holds the same bin twice the loop never ends, so nothing
  is returned, for any start location and whatever the distances evaluate to.
\<close>

theorem nearest_neighbor_never_returns_on_repeated_bin:
  "optimizeByDistance hav [ex_bin, ex_bin] driverLat driverLng = None"
  using optimizeByDistance_diverges [of "[ex_bin, ex_bin]" hav driverLat driverLng] by simp

section \<open>Route optimizer: the nearest-neighbour tour on distinct bins\<close>

lemma atan2_less: "atan2 y x < 2 * pi"
proof -
  have a: "arctan (y / x) < pi / 2" by (rule arctan_ubound)
  have p: "2 \<le> pi" by (rule pi_ge_two)
  show ?thesis
    unfolding atan2_def using a p by (simp split: if_splits)
qed

lemma haversine_less_MaxFloat64: "haversineDistance lat1 lng1 lat2 lng2 < MaxFloat64"
proof -
  have "haversineDistance lat1 lng1 lat2 lng2 < 6371 * (2 * (2 * pi))"
    unfolding haversineDistance_def Let_def using atan2_less by simp
  also have "\<dots> < 6371 * (2 * (2 * 4))" using pi_less_4 by simp
  also have "\<dots> \<le> MaxFloat64" by (simp add: MaxFloat64_def)
  finally show ?thesis .
qed

lemma f64_less_iff: "f64_less x y \<longleftrightarrow> (\<exists>a b. x = Val a \<and> y = Val b \<and> a < b)"
  by (cases x; cases y) auto

lemma f64_le_iff: "f64_le x y \<longleftrightarrow> (\<exists>a b. x = Val a \<and> y = Val b \<and> a \<le> b)"
  by (cases x; cases y) auto

lemma scan_nearest_least:
  assumes "scan_nearest hav v lat lng bwds nearest (Val m) = (r, fm)"
    and "\<forall>u \<in> set (filter (\<lambda>b. \<not> is_visited v (Bin.ID b)) (map bwd_bin bwds)).
           hav lat lng (Bin.Latitude u) (Bin.Longitude u) \<noteq> NaN"
  shows "\<exists>m'. fm = Val m'
         \<and> (\<forall>u \<in> set (filter (\<lambda>b. \<not> is_visited v (Bin.ID b)) (map bwd_bin bwds)).
              f64_le (Val m') (hav lat lng (Bin.Latitude u) (Bin.Longitude u)))
         \<and> m' \<le> m
         \<and> ((r = nearest \<and> m' = m)
            \<or> (\<exists>b \<in> set (filter (\<lambda>b. \<not> is_visited v (Bin.ID b)) (map bwd_bin bwds)).
                  r = Some b \<and> hav lat lng (Bin.Latitude b) (Bin.Longitude b) = Val m'))"
  using assms
proof (induction bwds arbitrary: nearest m)
  case Nil
  then show ?case by simp
next
  case (Cons bwd rest)
  show ?case
  proof (cases "is_visited v (Bin.ID (bwd_bin bwd))")
    case True
    with Cons.prems have "scan_nearest hav v lat lng rest nearest (Val m) = (r, fm)" by simp
    from Cons.IH[OF this] Cons.prems(2) True show ?thesis by auto
  next
    case False
    let ?d = "hav lat lng (Bin.Latitude (bwd_bin bwd)) (Bin.Longitude (bwd_bin bwd))"
    from False Cons.prems(2) obtain d where d: "?d = Val d" by (cases ?d) auto
    from False Cons.prems(2)
    have rest: "\<forall>u \<in> set (filter (\<lambda>b. \<not> is_visited v (Bin.ID b)) (map bwd_bin rest)).
           hav lat lng (Bin.Latitude u) (Bin.Longitude u) \<noteq> NaN" by auto
    show ?thesis
    proof (cases "d < m")
      case True
      with False Cons.prems(1) d
      have "scan_nearest hav v lat lng rest (Some (bwd_bin bwd)) (Val d) = (r, fm)"
        by (simp add: Let_def)
      from Cons.IH[OF this rest] obtain m' where m': "fm = Val m'"
        "\<forall>u \<in> set (filter (\<lambda>b. \<not> is_visited v (Bin.ID b)) (map bwd_bin rest)).
              f64_le (Val m') (hav lat lng (Bin.Latitude u) (Bin.Longitude u))"
        "m' \<le> d"
        "(r = Some (bwd_bin bwd) \<and> m' = d)
            \<or> (\<exists>b \<in> set (filter (\<lambda>b. \<not> is_visited v (Bin.ID b)) (map bwd_bin rest)).
                  r = Some b \<and> hav lat lng (Bin.Latitude b) (Bin.Longitude b) = Val m')"
        by blast
      with False True d show ?thesis by (intro exI[of _ m']) auto
    next
      case nl: False
      with False Cons.prems(1) d
      have "scan_nearest hav v lat lng rest nearest (Val m) = (r, fm)"
        by (simp add: Let_def)
      from Cons.IH[OF this rest] obtain m' where m': "fm = Val m'"
        "\<forall>u \<in> set (filter (\<lambda>b. \<not> is_visited v (Bin.ID b)) (map bwd_bin rest)).
              f64_le (Val m') (hav lat lng (Bin.Latitude u) (Bin.Longitude u))"
        "m' \<le> m"
        "(r = nearest \<and> m' = m)
            \<or> (\<exists>b \<in> set (filter (\<lambda>b. \<not> is_visited v (Bin.ID b)) (map bwd_bin rest)).
                  r = Some b \<and> hav lat lng (Bin.Latitude b) (Bin.Longitude b) = Val m')"
        by blast
      with False nl d show ?thesis by (intro exI[of _ m']) auto
    qed
  qed
qed

lemma number_below_max_iff:
  "number_below_max d \<longleftrightarrow> (\<exists>r. d = Val r \<and> r < MaxFloat64)"
  by (cases d) (auto simp: number_below_max_def)

lemma find_nearest_least:
  assumes "filter (\<lambda>b. \<not> is_visited (nn_visited st) (Bin.ID b)) (map bwd_bin bwds) \<noteq> []"
    and "\<forall>u \<in> set (filter (\<lambda>b. \<not> is_visited (nn_visited st) (Bin.ID b)) (map bwd_bin bwds)).
           number_below_max (hav (nn_currentLat st) (nn_currentLng st)
                               (Bin.Latitude u) (Bin.Longitude u))"
  shows "\<exists>b \<in> set (filter (\<lambda>b. \<not> is_visited (nn_visited st) (Bin.ID b)) (map bwd_bin bwds)).
           find_nearest hav bwds st = Some b
           \<and> (\<forall>u \<in> set (filter (\<lambda>b. \<not> is_visited (nn_visited st) (Bin.ID b))
                             (map bwd_bin bwds)).
                 f64_le (hav (nn_currentLat st) (nn_currentLng st)
                           (Bin.Latitude b) (Bin.Longitude b))
                        (hav (nn_currentLat st) (nn_currentLng st)
                           (Bin.Latitude u) (Bin.Longitude u)))"
proof -
  let ?U = "filter (\<lambda>b. \<not> is_visited (nn_visited st) (Bin.ID b)) (map bwd_bin bwds)"
  let ?d = "\<lambda>u. hav (nn_currentLat st) (nn_currentLng st) (Bin.Latitude u) (Bin.Longitude u)"
  obtain r fm where
    s: "scan_nearest hav (nn_visited st) (nn_currentLat st) (nn_currentLng st) bwds None
          (Val MaxFloat64) = (r, fm)"
    by (cases "scan_nearest hav (nn_visited st) (nn_currentLat st) (nn_currentLng st) bwds None
                 (Val MaxFloat64)")
  from assms(2) have nn: "\<forall>u \<in> set ?U. ?d u \<noteq> NaN"
    unfolding number_below_max_iff by auto
  from scan_nearest_least [OF s nn] obtain m' where fm: "fm = Val m'"
    and least: "\<forall>u \<in> set ?U. f64_le (Val m') (?d u)"
    and alt: "(r = None \<and> m' = MaxFloat64) \<or> (\<exists>b \<in> set ?U. r = Some b \<and> ?d b = Val m')"
    by blast
  from assms(1) obtain u where u: "u \<in> set ?U" by (cases ?U) auto
  with assms(2) have "number_below_max (?d u)" by blast
  then obtain du where du: "?d u = Val du" "du < MaxFloat64"
    unfolding number_below_max_iff by blast
  from least u du have "m' \<le> du" by auto
  with du have "m' \<noteq> MaxFloat64" by simp
  with alt obtain b where "b \<in> set ?U" "r = Some b" "?d b = Val m'" by blast
  with least s show ?thesis by (auto simp: find_nearest_def)
qed

lemma filter_other_ids:
  assumes "distinct (map f xs)" and "x \<in> set xs"
  shows "length (filter (\<lambda>c. f c \<noteq> f x) xs) + 1 = length xs
         \<and> mset (map f xs) = add_mset (f x) (mset (map f (filter (\<lambda>c. f c \<noteq> f x) xs)))"
  using assms
proof (induction xs)
  case Nil
  then show ?case by simp
next
  case (Cons y ys)
  show ?case
  proof (cases "f y = f x")
    case True
    with Cons.prems have "\<forall>c \<in> set ys. f c \<noteq> f x" by (auto simp: image_iff)
    then have "filter (\<lambda>c. f c \<noteq> f x) ys = ys" by (simp add: filter_id_conv)
    with True show ?thesis by simp
  next
    case False
    with Cons.prems have "x \<in> set ys" and "distinct (map f ys)" by auto
    from Cons.IH[OF this(2,1)] False show ?thesis by simp
  qed
qed

lemma is_visited_upd:
  "is_visited (v(k \<mapsto> True)) j \<longleftrightarrow> j = k \<or> is_visited v j"
  by (simp add: is_visited_def)

lemma unvisited_after_visit:
  "filter (\<lambda>c. \<not> is_visited (nn_visited (visit st b)) (Bin.ID c)) bins
   = filter (\<lambda>c. Bin.ID c \<noteq> Bin.ID b)
       (filter (\<lambda>c. \<not> is_visited (nn_visited st) (Bin.ID c)) bins)"
  by (simp add: visit_def is_visited_upd conj_commute)

lemma nn_loop_total:
  assumes d: "distinct (map Bin.ID bins)" and bw: "map bwd_bin bwds = bins"
    and between: "\<forall>c \<in> set bins. \<forall>u \<in> set bins.
                    number_below_max (hav (Bin.Latitude c) (Bin.Longitude c)
                                        (Bin.Latitude u) (Bin.Longitude u))"
  shows "length (filter (\<lambda>b. \<not> is_visited (nn_visited st) (Bin.ID b)) bins) = k \<Longrightarrow>
         length (nn_waypoints st) + k = length bins \<Longrightarrow>
         \<forall>u \<in> set bins. number_below_max (hav (nn_currentLat st) (nn_currentLng st)
                                             (Bin.Latitude u) (Bin.Longitude u)) \<Longrightarrow>
         \<exists>ws. nearest_neighbor_loop hav bwds (length bins) st = Some (nn_waypoints st @ ws)
            \<and> length ws = k
            \<and> greedy_tour hav (nn_currentLat st) (nn_currentLng st)
                  (filter (\<lambda>b. \<not> is_visited (nn_visited st) (Bin.ID b)) bins) ws
            \<and> map Waypoint.Order ws
                = map int [length (nn_waypoints st) + 1 ..< length bins + 1]
            \<and> mset (map Waypoint.BinID ws)
                = mset (map Bin.ID
                          (filter (\<lambda>b. \<not> is_visited (nn_visited st) (Bin.ID b)) bins))"
proof (induction k arbitrary: st)
  case 0
  then have "nearest_neighbor_loop hav bwds (length bins) st = Some (nn_waypoints st)"
    by (subst nearest_neighbor_loop.simps) simp
  with 0 show ?case by simp
next
  case (Suc k)
  let ?cand = "filter (\<lambda>b. \<not> is_visited (nn_visited st) (Bin.ID b)) bins"
  let ?n = "length (nn_waypoints st)"
  from Suc.prems
  have ne: "filter (\<lambda>b. \<not> is_visited (nn_visited st) (Bin.ID b)) (map bwd_bin bwds) \<noteq> []"
    unfolding bw by auto
  from Suc.prems(3)
  have nums: "\<forall>u \<in> set (filter (\<lambda>b. \<not> is_visited (nn_visited st) (Bin.ID b))
                             (map bwd_bin bwds)).
                number_below_max (hav (nn_currentLat st) (nn_currentLng st)
                                    (Bin.Latitude u) (Bin.Longitude u))"
    unfolding bw by simp
  from find_nearest_least [of st bwds hav, OF ne nums]
  obtain b where b: "b \<in> set ?cand"
    and found: "find_nearest hav bwds st = Some b"
    and least: "\<forall>u \<in> set ?cand.
                 f64_le (hav (nn_currentLat st) (nn_currentLng st)
                           (Bin.Latitude b) (Bin.Longitude b))
                        (hav (nn_currentLat st) (nn_currentLng st)
                           (Bin.Latitude u) (Bin.Longitude u))"
    unfolding bw by blast
  let ?w = "waypoint_for b (int ?n + 1)"
  have wps': "nn_waypoints (visit st b) = nn_waypoints st @ [?w]"
    and pos': "nn_currentLat (visit st b) = Bin.Latitude b"
              "nn_currentLng (visit st b) = Bin.Longitude b"
    by (simp_all add: visit_def)
  note cand' = unvisited_after_visit [of st b bins]
  have dc: "distinct (map Bin.ID ?cand)" using d by (rule distinct_map_filter)
  note f = filter_other_ids [OF dc b]
  from f Suc.prems(1)
  have k: "length (filter (\<lambda>c. \<not> is_visited (nn_visited (visit st b)) (Bin.ID c)) bins) = k"
    unfolding cand' by simp
  from Suc.prems(2) have n': "length (nn_waypoints (visit st b)) + k = length bins"
    by (simp add: wps')
  from b between
  have cur': "\<forall>u \<in> set bins. number_below_max
                (hav (nn_currentLat (visit st b)) (nn_currentLng (visit st b))
                   (Bin.Latitude u) (Bin.Longitude u))"
    unfolding pos' by simp
  from Suc.IH [OF k n' cur'] obtain ws where
    run: "nearest_neighbor_loop hav bwds (length bins) (visit st b)
          = Some (nn_waypoints st @ ?w # ws)"
    and len: "length ws = k"
    and gr: "greedy_tour hav (Bin.Latitude b) (Bin.Longitude b)
               (filter (\<lambda>c. Bin.ID c \<noteq> Bin.ID b) ?cand) ws"
    and ord: "map Waypoint.Order ws = map int [?n + 2 ..< length bins + 1]"
    and ms: "mset (map Waypoint.BinID ws)
             = mset (map Bin.ID (filter (\<lambda>c. Bin.ID c \<noteq> Bin.ID b) ?cand))"
    unfolding cand' wps' pos' by auto
  from Suc.prems(2) have lt: "?n < length bins" by simp
  have "nearest_neighbor_loop hav bwds (length bins) st
        = nearest_neighbor_loop hav bwds (length bins) (visit st b)"
    by (subst nearest_neighbor_loop.simps) (simp add: lt found)
  with run
  have r: "nearest_neighbor_loop hav bwds (length bins) st
           = Some (nn_waypoints st @ (?w # ws))"
    by simp
  have g: "greedy_tour hav (nn_currentLat st) (nn_currentLng st) ?cand (?w # ws)"
    using b least gr by (auto simp: waypoint_for_def)
  from lt have "[?n + 1 ..< length bins + 1] = (?n + 1) # [?n + 2 ..< length bins + 1]"
    by (simp add: upt_conv_Cons)
  with ord have o: "map Waypoint.Order (?w # ws) = map int [?n + 1 ..< length bins + 1]"
    by (simp add: waypoint_for_def)
  from ms f have m: "mset (map Waypoint.BinID (?w # ws)) = mset (map Bin.ID ?cand)"
    by (simp add: waypoint_for_def)
  from r len g o m show ?case by (intro exI [of _ "?w # ws"]) simp
qed

text \<open>
  On bins with pairwise distinct ids, when every distance that the loop computes (from the
  start and from each bin to each bin) is a number below \<open>math.MaxFloat64\<close>, the distance
  strategy does return, and its result is the tour of the specification: as many
  waypoints as bins, numbered \<open>1..n\<close> in output order, the bin ids of the input each once,
  every waypoint a nearest unvisited bin. A distance that is NaN is never below \<open>minDist\<close>:
  the theorem says nothing for such bins.
\<close>

theorem optimizeByDistance_distinct:
  assumes "distinct (map Bin.ID bins)"
    and "\<forall>u \<in> set bins. number_below_max (hav driverLat driverLng
                                            (Bin.Latitude u) (Bin.Longitude u))"
    and "\<forall>c \<in> set bins. \<forall>u \<in> set bins.
           number_below_max (hav (Bin.Latitude c) (Bin.Longitude c)
                               (Bin.Latitude u) (Bin.Longitude u))"
  shows "\<exists>wps. optimizeByDistance hav bins driverLat driverLng = Some wps
           \<and> length wps = length bins
           \<and> map Waypoint.Order wps = map int [1 ..< length bins + 1]
           \<and> mset (map Waypoint.BinID wps) = mset (map Bin.ID bins)
           \<and> greedy_tour hav driverLat driverLng bins wps"
proof -
  let ?bwds = "map (\<lambda>b. \<lparr>bwd_bin = b,
                         bwd_distance = hav driverLat driverLng
                                          (Bin.Latitude b) (Bin.Longitude b)\<rparr>) bins"
  let ?st = "\<lparr>nn_waypoints = [], nn_currentLat = driverLat, nn_currentLng = driverLng,
              nn_visited = Map.empty\<rparr>"
  have bw: "map bwd_bin ?bwds = bins" by (simp add: comp_def)
  have c: "filter (\<lambda>b. \<not> is_visited (nn_visited ?st) (Bin.ID b)) bins = bins"
    by (simp add: is_visited_def)
  have l: "length (nn_waypoints ?st) + length bins = length bins" by simp
  have cur: "\<forall>u \<in> set bins. number_below_max
               (hav (nn_currentLat ?st) (nn_currentLng ?st) (Bin.Latitude u) (Bin.Longitude u))"
    using assms(2) by simp
  from nn_loop_total[OF assms(1) bw assms(3), of ?st "length bins", unfolded c, OF refl l cur]
  obtain ws where
    "nearest_neighbor_loop hav ?bwds (length bins) ?st = Some (nn_waypoints ?st @ ws)"
    and "length ws = length bins"
    and "greedy_tour hav (nn_currentLat ?st) (nn_currentLng ?st) bins ws"
    and "map Waypoint.Order ws = map int [length (nn_waypoints ?st) + 1 ..< length bins + 1]"
    and "mset (map Waypoint.BinID ws) = mset (map Bin.ID bins)"
    by blast
  then show ?thesis
    by (intro exI[of _ ws]) (simp add: optimizeByDistance_def Let_def del: upt_Suc)
qed

lemma haversine_same_point: "haversineDistance lat lng lat lng = 0"
  by (simp add: haversineDistance_def atan2_def)

lemma MaxFloat64_pos: "0 < MaxFloat64"
  by (simp add: MaxFloat64_def)

lemma ex_hav_exact_below_max: "number_below_max (ex_hav_exact lat1 lng1 lat2 lng2)"
  by (simp add: number_below_max_def ex_hav_exact_def haversine_less_MaxFloat64)

text \<open>A run of the loop on two distinct bins.\<close>

lemma optimizeByDistance_distinct_example:
  "distinct (map Bin.ID [ex_bin, ex_bin_full])
   \<and> optimizeByDistance ex_hav_exact [ex_bin, ex_bin_full] 0 0
       = Some [waypoint_for ex_bin 1, waypoint_for ex_bin_full 2]"
  using optimizeByDistance_distinct [of "[ex_bin, ex_bin_full]" ex_hav_exact 0 0]
  by (simp add: optimizeByDistance_def nearest_neighbor_loop.simps find_nearest_def visit_def
        is_visited_def ex_hav_exact_def haversine_same_point MaxFloat64_pos ex_bin_def
        ex_bin_full_def Let_def)

section \<open>Route optimizer: the nearest-neighbour loop on a distance that is NaN\<close>

text \<open>
  A distance that is NaN is never less than \<open>minDist\<close>. When the only bin is at such a
  distance from the start, every round of the loop finds no bin and leaves its variables
  as they were: the loop never ends, although the bin ids are distinct.
\<close>

lemma nn_loop_stuck_aux:
  assumes "nearest_neighbor_loop hav bwds n st = Some y"
  shows "length (nn_waypoints st) < n \<longrightarrow> find_nearest hav bwds st = None \<longrightarrow> False"
proof (rule nearest_neighbor_loop.raw_induct
         [where P = "\<lambda>hav bwds n st y.
                       length (nn_waypoints st) < n \<longrightarrow> find_nearest hav bwds st = None \<longrightarrow> False",
          OF _ assms])
  fix loop :: "haversine \<Rightarrow> binWithDistance list \<Rightarrow> nat \<Rightarrow> nn_state \<Rightarrow> Waypoint list option"
    and hav bwds n st y
  assume IH: "\<And>hav bwds n st y. loop hav bwds n st = Some y \<Longrightarrow>
                length (nn_waypoints st) < n \<longrightarrow> find_nearest hav bwds st = None \<longrightarrow> False"
    and step: "(if length (nn_waypoints st) < n then
                  (case find_nearest hav bwds st of
                     None \<Rightarrow> loop hav bwds n st
                   | Some nearest \<Rightarrow> loop hav bwds n (visit st nearest))
                else Some (nn_waypoints st)) = Some y"
  show "length (nn_waypoints st) < n \<longrightarrow> find_nearest hav bwds st = None \<longrightarrow> False"
  proof (intro impI)
    assume lt: "length (nn_waypoints st) < n" and none: "find_nearest hav bwds st = None"
    with step have "loop hav bwds n st = Some y" by simp
    from IH [OF this] lt none show False by blast
  qed
qed

lemma optimizeByDistance_NaN_never_returns:
  assumes "hav driverLat driverLng (Bin.Latitude b) (Bin.Longitude b) = NaN"
  shows "optimizeByDistance hav [b] driverLat driverLng = None"
proof -
  let ?bwds = "[\<lparr>bwd_bin = b, bwd_distance = hav driverLat driverLng
                                               (Bin.Latitude b) (Bin.Longitude b)\<rparr>]"
  let ?st = "\<lparr>nn_waypoints = [], nn_currentLat = driverLat, nn_currentLng = driverLng,
              nn_visited = Map.empty\<rparr>"
  have none: "find_nearest hav ?bwds ?st = None"
    using assms by (simp add: find_nearest_def is_visited_def)
  have "nearest_neighbor_loop hav ?bwds 1 ?st = None"
  proof (cases "nearest_neighbor_loop hav ?bwds 1 ?st")
    case (Some y)
    from nn_loop_stuck_aux [OF Some] none show ?thesis by simp
  qed simp
  then show ?thesis by (simp add: optimizeByDistance_def Let_def)
qed

lemma optimizeByDistance_NaN_example:
  "optimizeByDistance ex_hav_antipode [ex_bin_antipode] (5 / 2) 0 = None"
  using optimizeByDistance_NaN_never_returns [of ex_hav_antipode "5 / 2" 0 ex_bin_antipode]
  by (simp add: ex_hav_antipode_def haversine_of_a_def ex_bin_antipode_def)

section \<open>Route optimizer: the fill-level strategy\<close>

text \<open>
  On bins whose distances from the start are numbers, the \<open>less\<close> function of the strategy
  is a strict weak ordering, and the insertion sort returns them ordered by it: the
  assumption made on \<open>sort.Slice\<close> below can be met for every such input.
\<close>

lemma set_insert_by: "set (insert_by lt x ys) = insert x (set ys)"
  by (induction ys) auto

lemma mset_insertion_sort: "mset (insertion_sort lt xs) = mset xs"
proof -
  have "mset (insert_by lt x ys) = add_mset x (mset ys)" for x ys
    by (induction ys) auto
  then show ?thesis by (induction xs) auto
qed

lemma set_insertion_sort: "set (insertion_sort lt xs) = set xs"
  using mset_insertion_sort [of lt xs] by (metis set_mset_mset)

lemma sorted_insert_by:
  assumes asym: "\<And>a b. a \<in> S \<Longrightarrow> b \<in> S \<Longrightarrow> lt a b \<Longrightarrow> \<not> lt b a"
    and ntrans: "\<And>a b c. a \<in> S \<Longrightarrow> b \<in> S \<Longrightarrow> c \<in> S \<Longrightarrow>
                   \<not> lt b a \<Longrightarrow> \<not> lt c b \<Longrightarrow> \<not> lt c a"
    and "sorted_wrt (\<lambda>a b. \<not> lt b a) ys" and "x \<in> S" and "set ys \<subseteq> S"
  shows "sorted_wrt (\<lambda>a b. \<not> lt b a) (insert_by lt x ys)"
  using assms(3,5)
proof (induction ys)
  case Nil
  then show ?case by simp
next
  case (Cons y ys)
  from Cons.prems have y: "y \<in> S" and ys: "set ys \<subseteq> S" by auto
  show ?case
  proof (cases "lt y x")
    case True
    then have "\<not> lt x y" using asym y assms(4) by blast
    with True Cons ys show ?thesis by (auto simp: set_insert_by)
  next
    case False
    have "\<forall>z \<in> set ys. \<not> lt z x"
    proof
      fix z assume z: "z \<in> set ys"
      with Cons.prems(1) have "\<not> lt z y" by simp
      with False show "\<not> lt z x" using ntrans [of x y z] assms(4) y ys z by blast
    qed
    with False Cons.prems show ?thesis by simp
  qed
qed

lemma fill_level_less_asym:
  "fill_level_less hav lat lng a b \<Longrightarrow> \<not> fill_level_less hav lat lng b a"
  by (auto simp: fill_level_less_def Let_def f64_less_iff split: if_splits)

lemma fill_level_less_ntrans:
  assumes "hav lat lng (Bin.Latitude a) (Bin.Longitude a) \<noteq> NaN"
    and "hav lat lng (Bin.Latitude b) (Bin.Longitude b) \<noteq> NaN"
    and "hav lat lng (Bin.Latitude c) (Bin.Longitude c) \<noteq> NaN"
    and "\<not> fill_level_less hav lat lng b a" and "\<not> fill_level_less hav lat lng c b"
  shows "\<not> fill_level_less hav lat lng c a"
proof -
  from assms(1-3) obtain da db dc where
    "hav lat lng (Bin.Latitude a) (Bin.Longitude a) = Val da"
    "hav lat lng (Bin.Latitude b) (Bin.Longitude b) = Val db"
    "hav lat lng (Bin.Latitude c) (Bin.Longitude c) = Val dc"
    by (metis float64.exhaust)
  with assms(4,5) show ?thesis
    by (auto simp: fill_level_less_def Let_def split: if_splits)
qed

lemma insertion_sort_meets_contract:
  assumes "\<forall>b \<in> set bins. hav lat lng (Bin.Latitude b) (Bin.Longitude b) \<noteq> NaN"
  shows "sorted_wrt (\<lambda>a b. \<not> fill_level_less hav lat lng b a)
           (insertion_sort (fill_level_less hav lat lng) bins)"
  using assms
proof (induction bins)
  case Nil
  then show ?case by simp
next
  case (Cons b bins)
  let ?S = "{u. hav lat lng (Bin.Latitude u) (Bin.Longitude u) \<noteq> NaN}"
  have "sorted_wrt (\<lambda>a b. \<not> fill_level_less hav lat lng b a)
          (insert_by (fill_level_less hav lat lng) b
             (insertion_sort (fill_level_less hav lat lng) bins))"
  proof (rule sorted_insert_by [where S = ?S])
    show "\<not> fill_level_less hav lat lng y x" if "fill_level_less hav lat lng x y" for x y
      using that by (rule fill_level_less_asym)
    show "\<not> fill_level_less hav lat lng z x"
      if "x \<in> ?S" and "y \<in> ?S" and "z \<in> ?S"
        and "\<not> fill_level_less hav lat lng y x" and "\<not> fill_level_less hav lat lng z y"
      for x y z
      using that fill_level_less_ntrans [of hav lat lng x y z] by simp
    show "sorted_wrt (\<lambda>a b. \<not> fill_level_less hav lat lng b a)
            (insertion_sort (fill_level_less hav lat lng) bins)"
      using Cons by simp
    show "b \<in> ?S" using Cons.prems by simp
    show "set (insertion_sort (fill_level_less hav lat lng) bins) \<subseteq> ?S"
      unfolding set_insertion_sort using Cons.prems by auto
  qed
  then show ?case by simp
qed

lemma fill_level_sorted_nth:
  assumes "sorted_wrt (\<lambda>a b. \<not> fill_level_less hav lat lng b a) xs"
    and "\<forall>b \<in> set xs. hav lat lng (Bin.Latitude b) (Bin.Longitude b) \<noteq> NaN"
    and "i < j" and "j < length xs"
  shows "Bin.FillLevel (xs ! i) > Bin.FillLevel (xs ! j)
         \<or> (Bin.FillLevel (xs ! i) = Bin.FillLevel (xs ! j)
            \<and> f64_le (hav lat lng (Bin.Latitude (xs ! i)) (Bin.Longitude (xs ! i)))
                     (hav lat lng (Bin.Latitude (xs ! j)) (Bin.Longitude (xs ! j))))"
proof -
  from assms(1,3,4) have n: "\<not> fill_level_less hav lat lng (xs ! j) (xs ! i)"
    by (simp add: sorted_wrt_iff_nth_less)
  from assms(2,3,4) obtain di dj where
    "hav lat lng (Bin.Latitude (xs ! i)) (Bin.Longitude (xs ! i)) = Val di"
    "hav lat lng (Bin.Latitude (xs ! j)) (Bin.Longitude (xs ! j)) = Val dj"
    by (metis float64.exhaust nth_mem order_less_trans)
  with n show ?thesis by (auto simp: fill_level_less_def Let_def split: if_splits)
qed

lemma optimizeByFillLevel_nth:
  assumes "k < length (sort_Slice (fill_level_less hav lat lng) bins)"
  shows "optimizeByFillLevel sort_Slice hav bins lat lng ! k =
         waypoint_for (sort_Slice (fill_level_less hav lat lng) bins ! k) (int k + 1)"
  using assms by (simp add: optimizeByFillLevel_def Let_def nth_enumerate_eq)

lemma optimizeByFillLevel_length:
  "length (optimizeByFillLevel sort_Slice hav bins lat lng)
   = length (sort_Slice (fill_level_less hav lat lng) bins)"
  by (simp add: optimizeByFillLevel_def Let_def)

lemma haversine_half_turn: "haversineDistance 0 0 0 180 = 6371 * pi"
  by (simp add: haversineDistance_def atan2_def)

text \<open>
  On bins none of whose distances from the driver's start is NaN, when \<open>sort.Slice\<close> has
  returned them, the same bins, ordered by the \<open>less\<close> function it was given (no later
  element is less than an earlier one), any two positions \<open>i < j\<close> of the output of the
  fill-level strategy satisfy: the fill level at \<open>i\<close> is greater than the one at \<open>j\<close>, or
  the two are equal and the distance from the driver's start to waypoint \<open>i\<close> is less than
  or equal to the one to waypoint \<open>j\<close>.
\<close>

lemma fill_level_strategy_order_without_NaN:
  assumes "\<forall>b \<in> set bins. hav driverLat driverLng (Bin.Latitude b) (Bin.Longitude b) \<noteq> NaN"
    and "mset (sort_Slice (fill_level_less hav driverLat driverLng) bins) = mset bins"
    and "sorted_wrt (\<lambda>a b. \<not> fill_level_less hav driverLat driverLng b a)
           (sort_Slice (fill_level_less hav driverLat driverLng) bins)"
    and "wps = optimizeByFillLevel sort_Slice hav bins driverLat driverLng"
    and "i < j" and "j < length wps"
  shows "Waypoint.FillLevel (wps ! i) > Waypoint.FillLevel (wps ! j)
         \<or> (Waypoint.FillLevel (wps ! i) = Waypoint.FillLevel (wps ! j)
            \<and> f64_le (hav driverLat driverLng
                        (Waypoint.Latitude (wps ! i)) (Waypoint.Longitude (wps ! i)))
                     (hav driverLat driverLng
                        (Waypoint.Latitude (wps ! j)) (Waypoint.Longitude (wps ! j))))"
proof -
  let ?xs = "sort_Slice (fill_level_less hav driverLat driverLng) bins"
  from assms(4,6) have j: "j < length ?xs" by (simp add: optimizeByFillLevel_length)
  with assms(5) have i: "i < length ?xs" by simp
  from assms(2) have "set ?xs = set bins" by (rule mset_eq_setD)
  with assms(1)
  have nn: "\<forall>b \<in> set ?xs. hav driverLat driverLng (Bin.Latitude b) (Bin.Longitude b) \<noteq> NaN"
    by simp
  from fill_level_sorted_nth [OF assms(3) nn assms(5) j] show ?thesis
    unfolding assms(4)
      optimizeByFillLevel_nth [of i sort_Slice hav driverLat driverLng bins, OF i]
      optimizeByFillLevel_nth [of j sort_Slice hav driverLat driverLng bins, OF j]
    by (simp add: waypoint_for_def)
qed

text \<open>
  A run from latitude 0 and longitude 0 with exact distances: the fullest bin comes
  first, and of the two bins at fill level 85 the one at the start (distance 0) comes
  before the one half a turn away (distance \<open>6371 * pi\<close>).
\<close>

lemma fill_level_strategy_order_example:
  "optimizeByFillLevel insertion_sort ex_hav_exact [ex_bin_far, ex_bin, ex_bin_full] 0 0
     = [waypoint_for ex_bin_full 1, waypoint_for ex_bin 2, waypoint_for ex_bin_far 3]
   \<and> Waypoint.FillLevel (waypoint_for ex_bin 2) = Waypoint.FillLevel (waypoint_for ex_bin_far 3)
   \<and> ex_hav_exact 0 0 (Waypoint.Latitude (waypoint_for ex_bin 2))
        (Waypoint.Longitude (waypoint_for ex_bin 2)) = Val 0
   \<and> ex_hav_exact 0 0 (Waypoint.Latitude (waypoint_for ex_bin_far 3))
        (Waypoint.Longitude (waypoint_for ex_bin_far 3)) = Val (6371 * pi)
   \<and> f64_le
        (ex_hav_exact 0 0 (Waypoint.Latitude (waypoint_for ex_bin 2))
           (Waypoint.Longitude (waypoint_for ex_bin 2)))
        (ex_hav_exact 0 0 (Waypoint.Latitude (waypoint_for ex_bin_far 3))
           (Waypoint.Longitude (waypoint_for ex_bin_far 3)))"
  using fill_level_strategy_order_without_NaN
    [of "[ex_bin_far, ex_bin, ex_bin_full]" ex_hav_exact 0 0 insertion_sort
        "optimizeByFillLevel insertion_sort ex_hav_exact [ex_bin_far, ex_bin, ex_bin_full] 0 0"
        1 2]
  by (simp add: optimizeByFillLevel_def fill_level_less_def waypoint_for_def ex_bin_def
                ex_bin_full_def ex_bin_far_def ex_hav_exact_def haversine_same_point
                haversine_half_turn Let_def enumerate_eq_zip)

text \<open>
  Claim C7 says that of two waypoints with equal fill levels the earlier one is at a
  distance less than or equal to that of the later one, for every output. The driver
  starts at latitude 2.5 and longitude 0; the bins \<open>bin-3\<close>, at the antipode of the start,
  and \<open>bin-1\<close> have the same fill level. The distance to \<open>bin-3\<close> is NaN, so \<open>less\<close> is
  false both ways and the list comes back as it went in, ordered as far as \<open>less\<close> can
  tell, with the bin on the far side of the globe first. The fill level of the first
  waypoint is not greater than that of the second, and the distance to the first is not
  less than or equal to the distance to the second: no comparison with NaN holds.
\<close>

theorem fill_level_order_fails_at_NaN_distance:
  "optimizeByFillLevel insertion_sort ex_hav_antipode [ex_bin_antipode, ex_bin] (5 / 2) 0
     = [waypoint_for ex_bin_antipode 1, waypoint_for ex_bin 2]
   \<and> sorted_wrt (\<lambda>a b. \<not> fill_level_less ex_hav_antipode (5 / 2) 0 b a)
       (insertion_sort (fill_level_less ex_hav_antipode (5 / 2) 0) [ex_bin_antipode, ex_bin])
   \<and> ex_hav_antipode (5 / 2) 0 (Waypoint.Latitude (waypoint_for ex_bin_antipode 1))
        (Waypoint.Longitude (waypoint_for ex_bin_antipode 1)) = NaN
   \<and> \<not> Waypoint.FillLevel (waypoint_for ex_bin_antipode 1)
         > Waypoint.FillLevel (waypoint_for ex_bin 2)
   \<and> \<not> f64_le
         (ex_hav_antipode (5 / 2) 0 (Waypoint.Latitude (waypoint_for ex_bin_antipode 1))
            (Waypoint.Longitude (waypoint_for ex_bin_antipode 1)))
         (ex_hav_antipode (5 / 2) 0 (Waypoint.Latitude (waypoint_for ex_bin 2))
            (Waypoint.Longitude (waypoint_for ex_bin 2)))"
  by (simp add: optimizeByFillLevel_def fill_level_less_def waypoint_for_def ex_bin_def
                ex_bin_antipode_def ex_hav_antipode_def haversine_of_a_def Let_def
                enumerate_eq_zip)

section \<open>Route optimizer: fallback to the heuristic metrics\<close>

lemma sum_legs_path_length: "sum_legs lat lng wps acc = acc + path_length lat lng wps"
  by (induction wps arbitrary: lat lng acc) auto

lemma calculateRouteMetrics_path_length:
  "calculateRouteMetrics lat lng wps =
     (path_length lat lng wps,
      go_int ((path_length lat lng wps / 30) * 60) + int (length wps) * 2)"
proof (cases wps)
  case Nil
  then show ?thesis by (simp add: calculateRouteMetrics_def go_int_def)
next
  case (Cons wp rest)
  then have l: "length wps \<noteq> 0" by simp
  show ?thesis
    unfolding calculateRouteMetrics_def Let_def sum_legs_path_length
    by (simp only: l if_False add_0)
qed

text \<open>
  Claim C8. When the bins resolve, the chosen strategy returns its waypoints, a routing
  key is configured and the call to the routing service fails (the request fails, the body
  cannot be read or decoded, the status is not \<open>OK\<close>, or the route list is empty),
  \<open>OptimizeRoute\<close> returns a route and no error. Its distance is the sum of the haversine
  legs from the driver's start through the waypoints, and its duration is
  \<open>(distance / 30) * 60\<close> converted to an integer plus two minutes for each stop.
\<close>

theorem routing_failure_keeps_heuristic:
  assumes "resolve_bins getByID binIDs [] = Inr bins" and "bins \<noteq> []"
    and "choose_waypoints sort_Slice hav optimizeBy bins driverLat driverLng = Some wps"
    and "googleKey \<noteq> ''''"
    and "reply = GetFailed \<or> reply = ReadFailed \<or> reply = ParseFailed
         \<or> (\<exists>status routes. reply = Decoded status routes \<and> (status \<noteq> ''OK'' \<or> routes = []))"
  shows "\<exists>route. OptimizeRoute sort_Slice hav getByID googleKey reply rid driverLat driverLng
                   binIDs optimizeBy = Some (Inr route)
           \<and> WaypointsList route = wps
           \<and> TotalDistanceKm route = Some (path_length driverLat driverLng wps)
           \<and> EstimatedDurationMinutes route =
               Some (go_int ((path_length driverLat driverLng wps / 30) * 60)
                     + int (length wps) * 2)"
proof -
  from assms(5) have "\<exists>e. getGoogleMapsRoute googleKey reply wps = Inl e"
    by (auto simp: getGoogleMapsRoute_def)
  then obtain e where "getGoogleMapsRoute googleKey reply wps = Inl e" ..
  with assms(1-4) show ?thesis
    by (simp add: OptimizeRoute_def calculateRouteMetrics_path_length)
qed

theorem routing_failure_keeps_heuristic_witness:
  "OptimizeRoute insertion_sort ex_hav_exact ex_getByID ''key'' GetFailed 1 0 0 [11]
     ''distance''
     = Some (Inr \<lparr>DriverRoute.ID = 1, DriverID = 0,
                   WaypointsList = [waypoint_for ex_bin 1],
                   TotalDistanceKm = Some 0, EstimatedDurationMinutes = Some 2,
                   Status = ''pending''\<rparr>)"
  using routing_failure_keeps_heuristic
    [of ex_getByID "[11]" "[ex_bin]" insertion_sort ex_hav_exact "''distance''" 0 0
        "[waypoint_for ex_bin 1]" "''key''" GetFailed 1]
  by (simp add: ex_getByID_def BinRepository_GetByID_def ex_bin_def ex_bin_full_def
        choose_waypoints_def optimizeByDistance_def nearest_neighbor_loop.simps
        find_nearest_def visit_def is_visited_def ex_hav_exact_def
        haversine_same_point MaxFloat64_pos waypoint_for_def OptimizeRoute_def
        calculateRouteMetrics_def go_int_def getGoogleMapsRoute_def RouteStatusPending_def)

end
